theory Spec2Isabelle
  imports Main "HOL-Library.Word"
begin

unbundle bit_operations_syntax

section \<open>Values\<close>

text \<open>
  Python strings are lists of characters. Exceptions are values: the classes the handlers
  can raise themselves, and \<open>External msg\<close> for whatever a third-party call raises.
\<close>

datatype exn = TypeError | ValueError | KeyError | AttributeError | OverflowError | External string

text \<open>A Python float is its IEEE-754 binary64 bit pattern.\<close>

datatype pyfloat = Float64 "64 word"

datatype json =
    JNull
  | JBool bool
  | JInt int
  | JFloat pyfloat
  | JStr string
  | JArr "json list"
  | JObj "(string \<times> json) list"

type_synonym bytes = string

datatype pil_image = RGB string

text \<open>
  An initialised backend object: the position in the trace of the call that created it
  (its identity) and the hub repository it was created from.
\<close>

datatype handle = Handle nat string

section \<open>Model registry (server.py, lines 35-111)\<close>

text \<open>
  A registry entry is a Python dict; the keys every entry has are plain fields, the keys
  only some entries have are optional fields (\<open>info.get(k)\<close> is \<open>None\<close> when absent).
\<close>

record info =
  info_name :: string
  info_model :: string
  info_description :: string
  info_type :: "string option"
  info_default_mode :: "string option"
  info_modes :: "(string \<times> string) list option"
  info_revision :: "string option"
  info_pad_token_id :: "int option"

definition blip_base :: info where
  "blip_base = \<lparr>info_name = ''BLIP Base'',
     info_model = ''Salesforce/blip-image-captioning-base'',
     info_description = ''Fast and lightweight (500MB)'',
     info_type = None, info_default_mode = None, info_modes = None,
     info_revision = None, info_pad_token_id = None\<rparr>"

definition blip_large :: info where
  "blip_large = \<lparr>info_name = ''BLIP Large'',
     info_model = ''Salesforce/blip-image-captioning-large'',
     info_description = ''More detailed captions (2GB)'',
     info_type = None, info_default_mode = None, info_modes = None,
     info_revision = None, info_pad_token_id = None\<rparr>"

definition vit_gpt2 :: info where
  "vit_gpt2 = \<lparr>info_name = ''ViT-GPT2'',
     info_model = ''nlpconnect/vit-gpt2-image-captioning'',
     info_description = ''Alternative model (500MB)'',
     info_type = None, info_default_mode = None, info_modes = None,
     info_revision = None, info_pad_token_id = None\<rparr>"

definition florence_2 :: info where
  "florence_2 = \<lparr>info_name = ''Florence-2 Base'',
     info_model = ''microsoft/Florence-2-base'',
     info_description = ''High-quality captions (custom loader, ~1.5GB)'',
     info_type = Some ''florence'',
     info_default_mode = Some ''more_detailed'',
     info_modes = Some [(''caption'', ''<CAPTION>''),
                        (''more_detailed'', ''<MORE_DETAILED_CAPTION>''),
                        (''ocr'', ''<OCR>''),
                        (''dense'', ''<DENSE_CAPTION>''),
                        (''od'', ''<OD>'')],
     info_revision = None, info_pad_token_id = None\<rparr>"

definition moondream_2 :: info where
  "moondream_2 = \<lparr>info_name = ''Moondream2'',
     info_model = ''vikhyatk/moondream2'',
     info_description = ''Lightweight VLM (fast CPU, ~1-2GB RAM)'',
     info_type = Some ''moondream'',
     info_default_mode = Some ''caption'',
     info_modes = Some [(''caption'', ''caption''), (''roast'', ''roast'')],
     info_revision = Some ''2025-06-21'', info_pad_token_id = None\<rparr>"

definition MODELS :: "(string \<times> info) list" where
  "MODELS = [(''blip-base'', blip_base), (''blip-large'', blip_large),
             (''vit-gpt2'', vit_gpt2), (''florence-2'', florence_2),
             (''moondream-2'', moondream_2)]"

definition smollm2 :: info where
  "smollm2 = \<lparr>info_name = ''SmolLM2 1.7B Instruct'',
     info_model = ''HuggingFaceTB/SmolLM2-1.7B-Instruct'',
     info_description = ''Tiny instruct model (fast CPU, ~1.5GB RAM)'',
     info_type = None, info_default_mode = None, info_modes = None,
     info_revision = None, info_pad_token_id = Some 128000\<rparr>"

definition phi3_mini :: info where
  "phi3_mini = \<lparr>info_name = ''Phi-3 Mini 4k'',
     info_model = ''microsoft/Phi-3-mini-4k-instruct'',
     info_description = ''Reasoning-focused small model (~3GB RAM)'',
     info_type = None, info_default_mode = None, info_modes = None,
     info_revision = None, info_pad_token_id = None\<rparr>"

definition gemma2_2b :: info where
  "gemma2_2b = \<lparr>info_name = ''Gemma-2 2B IT'',
     info_model = ''google/gemma-2-2b-it'',
     info_description = ''Creative text, ~2GB RAM'',
     info_type = None, info_default_mode = None, info_modes = None,
     info_revision = None, info_pad_token_id = None\<rparr>"

definition qwen25 :: info where
  "qwen25 = \<lparr>info_name = ''Qwen2.5 1.5B Instruct'',
     info_model = ''Qwen/Qwen2.5-1.5B-Instruct'',
     info_description = ''Multilingual ultra-light (~1GB RAM)'',
     info_type = None, info_default_mode = None, info_modes = None,
     info_revision = None, info_pad_token_id = None\<rparr>"

definition tinyllama :: info where
  "tinyllama = \<lparr>info_name = ''TinyLlama 1.1B Chat'',
     info_model = ''TinyLlama/TinyLlama-1.1B-Chat-v1.0'',
     info_description = ''Very fast, basic chat (~1GB RAM)'',
     info_type = None, info_default_mode = None, info_modes = None,
     info_revision = None, info_pad_token_id = None\<rparr>"

definition LLM_MODELS :: "(string \<times> info) list" where
  "LLM_MODELS = [(''smollm2-1.7b'', smollm2), (''phi3-mini'', phi3_mini),
                 (''gemma2-2b'', gemma2_2b), (''qwen2.5-1.5b'', qwen25),
                 (''tinyllama-1.1b'', tinyllama)]"

section \<open>Prompt tag of a mode (server.py, lines 110-117)\<close>

text \<open>
  \<open>d.get(k, v)\<close> on a dict given by its items. The key may be \<open>None\<close>, which is
  hashable and never a key of these tables.
\<close>

definition dict_get :: "(string \<times> 'v) list \<Rightarrow> string option \<Rightarrow> 'v \<Rightarrow> 'v" where
  "dict_get d k v =
     (case k of None \<Rightarrow> v
      | Some s \<Rightarrow> (case map_of d s of None \<Rightarrow> v | Some x \<Rightarrow> x))"

text \<open>
  The source reads the descriptor \<open>MODELS["florence-2"]\<close>; the descriptor is an argument
  here, and \<open>florence_prompt_for_mode\<close> is the function at that descriptor.
\<close>

definition FLORENCE_TAGS_of :: "info \<Rightarrow> (string \<times> string) list" where
  "FLORENCE_TAGS_of d = (case info_modes d of None \<Rightarrow> [] | Some t \<Rightarrow> t)"

definition default_mode_of :: "info \<Rightarrow> string" where
  "default_mode_of d = (case info_default_mode d of None \<Rightarrow> ''more_detailed'' | Some m \<Rightarrow> m)"

definition prompt_for_mode_of :: "info \<Rightarrow> string option \<Rightarrow> string" where
  "prompt_for_mode_of d mode =
     (let default_mode = default_mode_of d
      in dict_get (FLORENCE_TAGS_of d) mode
           (dict_get (FLORENCE_TAGS_of d) (Some default_mode) ''<MORE_DETAILED_CAPTION>''))"

definition florence_prompt_for_mode :: "string option \<Rightarrow> string" where
  "florence_prompt_for_mode mode = prompt_for_mode_of florence_2 mode"

section \<open>External backends and server state\<close>

text \<open>
  Every call into the model libraries is recorded in a trace, so that loading and inference
  are observable. The clock of a call is the length of the trace when it is made; the
  outcome of a call may depend on it, which covers sampling and transient failures.
\<close>

datatype event =
    ProcessorFromPretrained string
  | CausalLMFromPretrained string "string option"
  | MakePipeline string string
  | SetPadToken handle int
  | FlorenceGenerate handle handle string pil_image
  | MoondreamQuery handle pil_image string
  | MoondreamCaption handle pil_image
  | Captioner handle pil_image
  | TextGeneration handle json int pyfloat "int option"

text \<open>The three shapes of an image-model cache entry, by their \<open>"type"\<close> field.\<close>

datatype loaded =
    LFlorence handle handle
  | LMoondream handle
  | LPipeline handle

record llm_loaded =
  pipe :: handle
  pad_token_id :: "int option"

record tokenizer =
  tok_pad_token_id :: "int option"
  tok_eos_token_id :: "int option"

text \<open>What a moondream call returns: a dict, or another object given by its \<open>str()\<close>.\<close>

datatype mresult = RDict "(string \<times> json) list" | RObject string

record state =
  model_cache :: "string \<rightharpoonup> loaded"
  llm_cache :: "string \<rightharpoonup> llm_loaded"
  trace :: "event list"

text \<open>
  The libraries behind the server. An initialiser answers \<open>None\<close> when it succeeds and
  \<open>Some e\<close> when it raises \<open>e\<close>; an inference call answers \<open>Inl e\<close> when it (or the
  indexing of its output) raises. The last four fields are the numeric core of Python's
  \<open>int()\<close> and \<open>float()\<close>.
\<close>

record env =
  processor_from_pretrained :: "nat \<Rightarrow> string \<Rightarrow> exn option"
  causal_lm_from_pretrained :: "nat \<Rightarrow> string \<Rightarrow> string option \<Rightarrow> exn option"
  make_pipeline :: "nat \<Rightarrow> string \<Rightarrow> string \<Rightarrow> exn option"
  pipe_tokenizer :: "handle \<Rightarrow> tokenizer option"
  image_open :: "bytes \<Rightarrow> exn + pil_image"
  florence_generate :: "nat \<Rightarrow> handle \<Rightarrow> handle \<Rightarrow> string \<Rightarrow> pil_image \<Rightarrow> exn + string"
  moondream_query :: "nat \<Rightarrow> handle \<Rightarrow> pil_image \<Rightarrow> string \<Rightarrow> exn + mresult"
  moondream_caption :: "nat \<Rightarrow> handle \<Rightarrow> pil_image \<Rightarrow> exn + mresult"
  captioner :: "nat \<Rightarrow> handle \<Rightarrow> pil_image \<Rightarrow> exn + json"
  text_generation :: "nat \<Rightarrow> handle \<Rightarrow> json \<Rightarrow> int \<Rightarrow> pyfloat \<Rightarrow> int option \<Rightarrow> exn + json"
  str_to_int :: "string \<Rightarrow> exn + int"
  float_to_int :: "pyfloat \<Rightarrow> exn + int"
  int_to_float :: "int \<Rightarrow> exn + pyfloat"
  str_to_float :: "string \<Rightarrow> exn + pyfloat"

definition clock :: "state \<Rightarrow> nat" where
  "clock st = length (trace st)"

definition emit :: "event \<Rightarrow> state \<Rightarrow> state" where
  "emit e st = st\<lparr>trace := trace st @ [e]\<rparr>"

definition empty_state :: state where
  "empty_state = \<lparr>model_cache = Map.empty, llm_cache = Map.empty, trace = []\<rparr>"

section \<open>Model cache (server.py, lines 128-205)\<close>

text \<open>Lines 141-170: initialise the backend of a descriptor and build the cache entry.\<close>

definition load_backend :: "env \<Rightarrow> info \<Rightarrow> state \<Rightarrow> (exn + loaded) \<times> state" where
  "load_backend env info st =
     (if info_type info = Some ''florence'' then
        (let st1 = emit (ProcessorFromPretrained (info_model info)) st in
         case processor_from_pretrained env (clock st) (info_model info) of
           Some e \<Rightarrow> (Inl e, st1)
         | None \<Rightarrow>
            (let st2 = emit (CausalLMFromPretrained (info_model info) None) st1 in
             case causal_lm_from_pretrained env (clock st1) (info_model info) None of
               Some e \<Rightarrow> (Inl e, st2)
             | None \<Rightarrow>
                (Inr (LFlorence (Handle (clock st) (info_model info))
                                (Handle (clock st1) (info_model info))), st2)))
      else if info_type info = Some ''moondream'' then
        (let st1 = emit (CausalLMFromPretrained (info_model info) (info_revision info)) st in
         case causal_lm_from_pretrained env (clock st) (info_model info) (info_revision info) of
           Some e \<Rightarrow> (Inl e, st1)
         | None \<Rightarrow> (Inr (LMoondream (Handle (clock st) (info_model info))), st1))
      else
        (let st1 = emit (MakePipeline ''image-to-text'' (info_model info)) st in
         case make_pipeline env (clock st) ''image-to-text'' (info_model info) of
           Some e \<Rightarrow> (Inl e, st1)
         | None \<Rightarrow> (Inr (LPipeline (Handle (clock st) (info_model info))), st1)))"

definition get_model :: "env \<Rightarrow> string \<Rightarrow> state \<Rightarrow> (exn + loaded) \<times> state" where
  "get_model env model_key st =
     (case model_cache st model_key of
        Some l \<Rightarrow> (Inr l, st)
      | None \<Rightarrow>
         (let model_key' = (if map_of MODELS model_key = None then ''blip-base'' else model_key)
          in case map_of MODELS model_key' of
               None \<Rightarrow> (Inl KeyError, st)
             | Some info \<Rightarrow>
                (case load_backend env info st of
                   (Inl e, st1) \<Rightarrow> (Inl e, st1)
                 | (Inr l, st1) \<Rightarrow>
                    (let st2 = st1\<lparr>model_cache := (model_cache st1)(model_key' \<mapsto> l)\<rparr>
                     in case model_cache st2 model_key' of
                          None \<Rightarrow> (Inl KeyError, st2)
                        | Some l' \<Rightarrow> (Inr l', st2)))))"

text \<open>\<open>a or b\<close> on optional integers: \<open>None\<close> and \<open>0\<close> are falsy.\<close>

definition int_or :: "int option \<Rightarrow> int option \<Rightarrow> int option" where
  "int_or a b = (case a of None \<Rightarrow> b | Some n \<Rightarrow> if n = 0 then b else Some n)"

text \<open>Lines 192-202: resolve the pad token and build the cache entry of a new pipeline.\<close>

definition resolve_pad_token :: "env \<Rightarrow> info \<Rightarrow> handle \<Rightarrow> state \<Rightarrow> llm_loaded \<times> state" where
  "resolve_pad_token env info p st =
     (case pipe_tokenizer env p of
        None \<Rightarrow> (\<lparr>pipe = p, pad_token_id = info_pad_token_id info\<rparr>, st)
      | Some tokenizer \<Rightarrow>
         (let pad = (case info_pad_token_id info of
                       None \<Rightarrow> int_or (tok_pad_token_id tokenizer) (tok_eos_token_id tokenizer)
                     | Some n \<Rightarrow> Some n);
              st1 = (case pad of
                       None \<Rightarrow> st
                     | Some n \<Rightarrow> if tok_pad_token_id tokenizer = None
                                 then emit (SetPadToken p n) st else st)
          in (\<lparr>pipe = p, pad_token_id = pad\<rparr>, st1)))"

text \<open>
  The key of \<open>get_llm\<close> comes from the JSON body and may be any JSON value: a list or an
  object is unhashable, every other value that is not a string is a key of no dict here.
\<close>

definition hashable :: "json \<Rightarrow> bool" where
  "hashable j = (case j of JArr _ \<Rightarrow> False | JObj _ \<Rightarrow> False | _ \<Rightarrow> True)"

definition json_lookup :: "(string \<rightharpoonup> 'v) \<Rightarrow> json \<Rightarrow> 'v option" where
  "json_lookup d k = (case k of JStr s \<Rightarrow> d s | _ \<Rightarrow> None)"

definition get_llm :: "env \<Rightarrow> json \<Rightarrow> state \<Rightarrow> (exn + llm_loaded) \<times> state" where
  "get_llm env model_key st =
     (if \<not> hashable model_key then (Inl TypeError, st)
      else case json_lookup (llm_cache st) model_key of
        Some l \<Rightarrow> (Inr l, st)
      | None \<Rightarrow>
         (let model_key' =
                (case model_key of
                   JStr s \<Rightarrow> if map_of LLM_MODELS s = None then ''smollm2-1.7b'' else s
                 | _ \<Rightarrow> ''smollm2-1.7b'')
          in case map_of LLM_MODELS model_key' of
               None \<Rightarrow> (Inl KeyError, st)
             | Some info \<Rightarrow>
                (let st1 = emit (MakePipeline ''text-generation'' (info_model info)) st in
                 case make_pipeline env (clock st) ''text-generation'' (info_model info) of
                   Some e \<Rightarrow> (Inl e, st1)
                 | None \<Rightarrow>
                    (case resolve_pad_token env info (Handle (clock st) (info_model info)) st1 of
                       (l, st2) \<Rightarrow>
                         (let st3 = st2\<lparr>llm_cache := (llm_cache st2)(model_key' \<mapsto> l)\<rparr>
                          in case llm_cache st3 model_key' of
                               None \<Rightarrow> (Inl KeyError, st3)
                             | Some l' \<Rightarrow> (Inr l', st3))))))"

text \<open>Lines 207-213: the warm-up load at startup; a failure is swallowed.\<close>

definition create_app :: "env \<Rightarrow> state" where
  "create_app env = snd (get_model env ''florence-2'' empty_state)"

section \<open>String helpers\<close>

text \<open>
  \<open>str.isspace\<close> on the code points below 256, and \<open>str.strip()\<close>, which removes
  such characters from both ends.
\<close>

definition py_isspace :: "char \<Rightarrow> bool" where
  "py_isspace c =
     (let n = (of_char c :: nat)
      in (9 \<le> n \<and> n \<le> 13) \<or> (28 \<le> n \<and> n \<le> 32) \<or> n = 133 \<or> n = 160)"

definition py_strip :: "string \<Rightarrow> string" where
  "py_strip s = rev (dropWhile py_isspace (rev (dropWhile py_isspace s)))"

definition startswith :: "string \<Rightarrow> string \<Rightarrow> bool" where
  "startswith s p = (take (length p) s = p)"

section \<open>Requests and responses\<close>

record upload =
  filename :: string
  stream :: bytes

record caption_request =
  files_image :: "upload option"
  form_model :: "string option"
  form_question :: "string option"
  form_mode :: "string option"

text \<open>
  A response body is the JSON value given to \<open>jsonify\<close>; \<open>Failure p e\<close> is the body
  \<open>{'error': p + str(e)}\<close> of the catch-all handlers.
\<close>

datatype body = Json json | Failure string exn

record response =
  status :: nat
  body :: body

definition ok :: "json \<Rightarrow> response" where
  "ok j = \<lparr>status = 200, body = Json j\<rparr>"

definition bad_request :: "string \<Rightarrow> response" where
  "bad_request msg = \<lparr>status = 400, body = Json (JObj [(''error'', JStr msg)])\<rparr>"

definition server_error :: "string \<Rightarrow> exn \<Rightarrow> response" where
  "server_error p e = \<lparr>status = 500, body = Failure p e\<rparr>"

section \<open>GET /models (server.py, lines 215-239)\<close>

definition image_model_entry :: "string \<times> info \<Rightarrow> json" where
  "image_model_entry = (\<lambda>(key, info).
     JObj [(''key'', JStr key),
           (''name'', JStr (info_name info)),
           (''description'', JStr (info_description info)),
           (''modes'', (case info_modes info of
                          None \<Rightarrow> JNull
                        | Some t \<Rightarrow> if t = [] then JNull else JArr (map (JStr \<circ> fst) t))),
           (''default_mode'', (case info_default_mode info of
                                 None \<Rightarrow> JNull | Some m \<Rightarrow> JStr m))])"

definition llm_entry :: "string \<times> info \<Rightarrow> json" where
  "llm_entry = (\<lambda>(key, info).
     JObj [(''key'', JStr key),
           (''name'', JStr (info_name info)),
           (''description'', JStr (info_description info))])"

definition list_models_of :: "(string \<times> info) list \<Rightarrow> (string \<times> info) list \<Rightarrow> response" where
  "list_models_of models llms =
     ok (JObj [(''models'', JArr (map image_model_entry models)),
               (''llms'', JArr (map llm_entry llms))])"

definition list_models :: response where
  "list_models = list_models_of MODELS LLM_MODELS"

section \<open>POST /caption (server.py, lines 241-310)\<close>

text \<open>Lines 266-286: the tag-prompted adapter.\<close>

definition florence_caption ::
  "env \<Rightarrow> handle \<Rightarrow> handle \<Rightarrow> string option \<Rightarrow> string \<Rightarrow> pil_image \<Rightarrow> state
     \<Rightarrow> (exn + json) \<times> state" where
  "florence_caption env processor model mode question img st =
     (let prompt = florence_prompt_for_mode mode;
          question_prefix =
            (if question \<noteq> [] then ''Question: '' @ question @ [CHR 0x0A] @ ''Answer: '' else []);
          st1 = emit (FlorenceGenerate processor model prompt img) st
      in case florence_generate env (clock st) processor model prompt img of
           Inl e \<Rightarrow> (Inl e, st1)
         | Inr caption \<Rightarrow>
            (let caption' = (if startswith caption prompt
                             then py_strip (drop (length prompt) caption) else caption)
             in (Inr (JStr (question_prefix @ caption')), st1)))"

definition result_field :: "string \<Rightarrow> mresult \<Rightarrow> json" where
  "result_field k r =
     (case r of
        RDict d \<Rightarrow> (case map_of d k of None \<Rightarrow> JNull | Some v \<Rightarrow> v)
      | RObject s \<Rightarrow> JStr s)"

text \<open>Lines 288-299: the conversational adapter.\<close>

definition moondream_answer ::
  "env \<Rightarrow> handle \<Rightarrow> string \<Rightarrow> string option \<Rightarrow> string \<Rightarrow> pil_image \<Rightarrow> state
     \<Rightarrow> (exn + json) \<times> state" where
  "moondream_answer env model model_key mode question img st =
     (let prompt = (if question \<noteq> [] then Some (py_strip question) else None);
          default_mode =
            (case map_of MODELS model_key of
               None \<Rightarrow> ''caption''
             | Some info \<Rightarrow> (case info_default_mode info of None \<Rightarrow> ''caption'' | Some m \<Rightarrow> m));
          mode_to_use = (case mode of
                           None \<Rightarrow> default_mode
                         | Some m \<Rightarrow> if m \<noteq> [] then m else default_mode)
      in if mode_to_use = ''roast'' then
           (let prompt' = (case prompt of
                             None \<Rightarrow> ''Roast this image in one short, witty sentence.''
                           | Some p \<Rightarrow> if p \<noteq> [] then p
                                       else ''Roast this image in one short, witty sentence.'');
                st1 = emit (MoondreamQuery model img prompt') st
            in case moondream_query env (clock st) model img prompt' of
                 Inl e \<Rightarrow> (Inl e, st1)
               | Inr result \<Rightarrow> (Inr (result_field ''answer'' result), st1))
         else
           (let st1 = emit (MoondreamCaption model img) st
            in case moondream_caption env (clock st) model img of
                 Inl e \<Rightarrow> (Inl e, st1)
               | Inr result \<Rightarrow> (Inr (result_field ''caption'' result), st1)))"

text \<open>Lines 301-303: the generic pipeline adapter.\<close>

definition pipeline_caption :: "env \<Rightarrow> handle \<Rightarrow> pil_image \<Rightarrow> state \<Rightarrow> (exn + json) \<times> state" where
  "pipeline_caption env captioner_h img st =
     (captioner env (clock st) captioner_h img, emit (Captioner captioner_h img) st)"

definition caption_image :: "env \<Rightarrow> caption_request \<Rightarrow> state \<Rightarrow> response \<times> state" where
  "caption_image env req st =
     (case files_image req of
        None \<Rightarrow> (bad_request ''No image provided'', st)
      | Some file \<Rightarrow>
         if filename file = [] then (bad_request ''No image selected'', st)
         else
           (let model_key = (case form_model req of None \<Rightarrow> ''florence-2'' | Some m \<Rightarrow> m);
                question = (case form_question req of None \<Rightarrow> [] | Some q \<Rightarrow> q);
                mode = form_mode req
            in case image_open env (stream file) of
                 Inl e \<Rightarrow> (server_error ''Error analyzing image: '' e, st)
               | Inr img \<Rightarrow>
                  (case get_model env model_key st of
                     (Inl e, st1) \<Rightarrow> (server_error ''Error analyzing image: '' e, st1)
                   | (Inr loaded, st1) \<Rightarrow>
                      (case (case loaded of
                               LFlorence processor model \<Rightarrow>
                                 florence_caption env processor model mode question img st1
                             | LMoondream model \<Rightarrow>
                                 moondream_answer env model model_key mode question img st1
                             | LPipeline captioner_h \<Rightarrow>
                                 pipeline_caption env captioner_h img st1) of
                         (Inl e, st2) \<Rightarrow> (server_error ''Error analyzing image: '' e, st2)
                       | (Inr caption, st2) \<Rightarrow> (ok (JObj [(''text'', caption)]), st2)))))"

section \<open>POST /generate (server.py, lines 312-346)\<close>

definition float_is_zero :: "pyfloat \<Rightarrow> bool" where
  "float_is_zero f = (case f of Float64 w \<Rightarrow> w AND 0x7FFFFFFFFFFFFFFF = 0)"

definition truthy :: "json \<Rightarrow> bool" where
  "truthy j =
     (case j of
        JNull \<Rightarrow> False
      | JBool b \<Rightarrow> b
      | JInt n \<Rightarrow> n \<noteq> 0
      | JFloat f \<Rightarrow> \<not> float_is_zero f
      | JStr s \<Rightarrow> s \<noteq> []
      | JArr xs \<Rightarrow> xs \<noteq> []
      | JObj d \<Rightarrow> d \<noteq> [])"

definition py_int :: "env \<Rightarrow> json \<Rightarrow> exn + int" where
  "py_int env j =
     (case j of
        JInt n \<Rightarrow> Inr n
      | JBool b \<Rightarrow> Inr (if b then 1 else 0)
      | JFloat f \<Rightarrow> float_to_int env f
      | JStr s \<Rightarrow> str_to_int env s
      | _ \<Rightarrow> Inl TypeError)"

definition py_float :: "env \<Rightarrow> json \<Rightarrow> exn + pyfloat" where
  "py_float env j =
     (case j of
        JFloat f \<Rightarrow> Inr f
      | JInt n \<Rightarrow> int_to_float env n
      | JBool b \<Rightarrow> int_to_float env (if b then 1 else 0)
      | JStr s \<Rightarrow> str_to_float env s
      | _ \<Rightarrow> Inl TypeError)"

text \<open>The float literal \<open>0.7\<close>.\<close>

definition default_temperature :: pyfloat where
  "default_temperature = Float64 0x3FE6666666666666"

record generate_args =
  arg_prompt :: json
  arg_model_key :: json
  arg_max_new_tokens :: int
  arg_temperature :: pyfloat

definition field :: "(string \<times> json) list \<Rightarrow> string \<Rightarrow> json \<Rightarrow> json" where
  "field d k v = (case map_of d k of None \<Rightarrow> v | Some x \<Rightarrow> x)"

text \<open>Lines 316-320: read the JSON body; \<open>None\<close> is a body that is absent or does not parse.\<close>

definition read_generate_args :: "env \<Rightarrow> json option \<Rightarrow> exn + generate_args" where
  "read_generate_args env request_json =
     (let data = (case request_json of
                    None \<Rightarrow> JObj []
                  | Some j \<Rightarrow> if truthy j then j else JObj [])
      in case data of
           JObj d \<Rightarrow>
             (case py_int env (field d ''max_new_tokens'' (JInt 256)) of
                Inl e \<Rightarrow> Inl e
              | Inr max_new_tokens \<Rightarrow>
                 (case py_float env (field d ''temperature'' (JFloat default_temperature)) of
                    Inl e \<Rightarrow> Inl e
                  | Inr temperature \<Rightarrow>
                     Inr \<lparr>arg_prompt = field d ''prompt'' (JStr []),
                          arg_model_key = field d ''model'' (JStr ''smollm2-1.7b''),
                          arg_max_new_tokens = max_new_tokens,
                          arg_temperature = temperature\<rparr>))
         | _ \<Rightarrow> Inl AttributeError)"

text \<open>Lines 336-337: the continuation of the prompt.\<close>

definition strip_prompt :: "json \<Rightarrow> json \<Rightarrow> exn + string" where
  "strip_prompt generated prompt =
     (case generated of
        JStr g \<Rightarrow>
          (case prompt of
             JStr p \<Rightarrow> Inr (if startswith g p then drop (length p) g else g)
           | _ \<Rightarrow> Inl TypeError)
      | _ \<Rightarrow> Inl AttributeError)"

text \<open>Lines 322-343: load, generate, post-process.\<close>

definition run_generate :: "env \<Rightarrow> generate_args \<Rightarrow> state \<Rightarrow> response \<times> state" where
  "run_generate env a st =
     (case get_llm env (arg_model_key a) st of
        (Inl e, st1) \<Rightarrow> (server_error ''Error generating text: '' e, st1)
      | (Inr loaded, st1) \<Rightarrow>
         (let st2 = emit (TextGeneration (pipe loaded) (arg_prompt a) (arg_max_new_tokens a)
                            (arg_temperature a) (pad_token_id loaded)) st1
          in case text_generation env (clock st1) (pipe loaded) (arg_prompt a)
                    (arg_max_new_tokens a) (arg_temperature a) (pad_token_id loaded) of
               Inl e \<Rightarrow> (server_error ''Error generating text: '' e, st2)
             | Inr generated \<Rightarrow>
                (case strip_prompt generated (arg_prompt a) of
                   Inl e \<Rightarrow> (server_error ''Error generating text: '' e, st2)
                 | Inr text \<Rightarrow>
                    (ok (JObj [(''text'', JStr text), (''model'', arg_model_key a)]), st2))))"

definition generate_text :: "env \<Rightarrow> json option \<Rightarrow> state \<Rightarrow> response \<times> state" where
  "generate_text env request_json st =
     (case read_generate_args env request_json of
        Inl e \<Rightarrow> (server_error ''Error generating text: '' e, st)
      | Inr a \<Rightarrow> run_generate env a st)"

section \<open>GET /health (server.py, lines 348-350)\<close>

definition health :: response where
  "health = ok (JObj [(''status'', JStr ''ok'')])"

section \<open>Invariant and observations\<close>

text \<open>The keys of each cache are keys of its registry.\<close>

definition cache_ok :: "state \<Rightarrow> bool" where
  "cache_ok st =
     (dom (model_cache st) \<subseteq> set (map fst MODELS) \<and>
      dom (llm_cache st) \<subseteq> set (map fst LLM_MODELS))"

text \<open>Reading a response body: a field of a JSON object, the items of a JSON array.\<close>

definition json_get :: "json \<Rightarrow> string \<Rightarrow> json option" where
  "json_get j k = (case j of JObj d \<Rightarrow> map_of d k | _ \<Rightarrow> None)"

definition json_items :: "json \<Rightarrow> json list" where
  "json_items j = (case j of JArr xs \<Rightarrow> xs | _ \<Rightarrow> [])"

definition body_field :: "response \<Rightarrow> string \<Rightarrow> json option" where
  "body_field r k = (case body r of Json j \<Rightarrow> json_get j k | Failure _ _ \<Rightarrow> None)"

definition listed :: "response \<Rightarrow> string \<Rightarrow> json list" where
  "listed r k = (case body_field r k of None \<Rightarrow> [] | Some j \<Rightarrow> json_items j)"

section \<open>A test double of the libraries\<close>

text \<open>
  A world in which every initialisation succeeds, the tag-prompted model echoes its prompt
  tag before the caption, the conversational model answers with the prompt it was asked,
  and text generation continues the prompt \<open>Hello\<close> and ignores any other. Of the numeric
  conversions it knows plain digit strings and the floats and integers \<open>0\<close> and \<open>1\<close>.
\<close>

definition digits_value :: "string \<Rightarrow> int" where
  "digits_value s = foldl (\<lambda>n c. 10 * n + (int (of_char c) - 48)) 0 s"

definition is_digit :: "char \<Rightarrow> bool" where
  "is_digit c = (48 \<le> (of_char c :: nat) \<and> (of_char c :: nat) \<le> 57)"

definition test_env :: env where
  "test_env = \<lparr>
     processor_from_pretrained = (\<lambda>t name. None),
     causal_lm_from_pretrained = (\<lambda>t name revision. None),
     make_pipeline = (\<lambda>t task name. None),
     pipe_tokenizer = (\<lambda>h. Some \<lparr>tok_pad_token_id = None, tok_eos_token_id = Some 2\<rparr>),
     image_open = (\<lambda>b. if b = [] then Inl (External ''cannot identify image file'')
                         else Inr (RGB b)),
     florence_generate = (\<lambda>t processor model prompt img. Inr (prompt @ '' a cat '')),
     moondream_query = (\<lambda>t model img prompt. Inr (RDict [(''answer'', JStr prompt)])),
     moondream_caption = (\<lambda>t model img. Inr (RDict [(''caption'', JStr ''a dog'')])),
     captioner = (\<lambda>t h img. Inr (JStr ''a photo'')),
     text_generation = (\<lambda>t h prompt n temperature pad.
        if prompt = JStr ''Hello'' then Inr (JStr ''Hello world'')
        else Inr (JStr ''Once upon a time'')),
     str_to_int = (\<lambda>s. if s \<noteq> [] \<and> list_all is_digit s then Inr (digits_value s)
                        else Inl ValueError),
     float_to_int = (\<lambda>f. if f = Float64 0 then Inr 0
                          else if f = Float64 0x3FF0000000000000 then Inr 1
                          else Inl (External ''not modelled'')),
     int_to_float = (\<lambda>n. if n = 0 then Inr (Float64 0)
                          else if n = 1 then Inr (Float64 0x3FF0000000000000)
                          else Inl (External ''not modelled'')),
     str_to_float = (\<lambda>s. Inl ValueError)\<rparr>"

definition photo :: upload where
  "photo = \<lparr>filename = ''cat.png'', stream = ''PNG''\<rparr>"

section \<open>Properties\<close>

lemma MODELS_florence: "map_of MODELS ''florence-2'' = Some florence_2"
  by (simp add: MODELS_def)

lemma dict_get_hit: "map_of d m = Some x \<Longrightarrow> dict_get d (Some m) v = x"
  by (simp add: dict_get_def)

lemma dict_get_miss: "k = None \<or> (\<exists>m. k = Some m \<and> map_of d m = None) \<Longrightarrow> dict_get d k v = v"
  by (auto simp: dict_get_def)

text \<open>
  Claim C6. The prompt tag of a mode, read off the descriptor's own fields: the mode table
  is the descriptor's \<open>modes\<close> (the empty table when it has none) and the default mode is
  its \<open>default_mode\<close> (\<open>more_detailed\<close> when it has none). A mode that is a key of the
  table maps to the table's tag; every other mode, an absent one included, maps to what
  the default mode maps to, which is the default mode's tag when the table has one and the
  hardcoded tag \<open><MORE_DETAILED_CAPTION>\<close> when it has none. The server applies this
  function to the descriptor registered as \<open>florence-2\<close>, where it sends \<open>caption\<close>,
  \<open>ocr\<close>, \<open>dense\<close> and \<open>od\<close> to their tags and everything else to the tag of
  \<open>more_detailed\<close>.
\<close>

theorem prompt_tag_resolution:
  assumes "table = (case info_modes d of None \<Rightarrow> [] | Some t \<Rightarrow> t)"
    and "dflt = (case info_default_mode d of None \<Rightarrow> ''more_detailed'' | Some x \<Rightarrow> x)"
  shows "(map_of table m = Some tag \<longrightarrow> prompt_for_mode_of d (Some m) = tag)
   \<and> ((mode = None \<or> (\<exists>u. mode = Some u \<and> map_of table u = None)) \<longrightarrow>
        prompt_for_mode_of d mode = prompt_for_mode_of d (Some dflt)
        \<and> (map_of table dflt = Some dtag \<longrightarrow> prompt_for_mode_of d mode = dtag)
        \<and> (map_of table dflt = None \<longrightarrow>
             prompt_for_mode_of d mode = ''<MORE_DETAILED_CAPTION>''))
   \<and> map_of MODELS ''florence-2'' = Some florence_2
   \<and> florence_prompt_for_mode mode = prompt_for_mode_of florence_2 mode
   \<and> florence_prompt_for_mode mode =
       (if mode = Some ''caption'' then ''<CAPTION>''
        else if mode = Some ''ocr'' then ''<OCR>''
        else if mode = Some ''dense'' then ''<DENSE_CAPTION>''
        else if mode = Some ''od'' then ''<OD>''
        else ''<MORE_DETAILED_CAPTION>'')"
proof -
  have t: "FLORENCE_TAGS_of d = table"
    using assms(1) by (simp add: FLORENCE_TAGS_of_def)
  have dm: "default_mode_of d = dflt"
    using assms(2) by (simp add: default_mode_of_def)
  have hit: "prompt_for_mode_of d (Some m) = tag" if "map_of table m = Some tag"
    using that by (simp add: prompt_for_mode_of_def t dict_get_hit)
  have fallback: "prompt_for_mode_of d mode =
      dict_get table (Some dflt) ''<MORE_DETAILED_CAPTION>''"
    if miss: "mode = None \<or> (\<exists>u. mode = Some u \<and> map_of table u = None)"
    using dict_get_miss [OF miss] by (simp add: prompt_for_mode_of_def t dm)
  have same: "prompt_for_mode_of d (Some dflt) =
      dict_get table (Some dflt) ''<MORE_DETAILED_CAPTION>''"
    by (simp add: prompt_for_mode_of_def t dm dict_get_def split: option.splits)
  have concrete: "florence_prompt_for_mode mode =
       (if mode = Some ''caption'' then ''<CAPTION>''
        else if mode = Some ''ocr'' then ''<OCR>''
        else if mode = Some ''dense'' then ''<DENSE_CAPTION>''
        else if mode = Some ''od'' then ''<OD>''
        else ''<MORE_DETAILED_CAPTION>'')"
    by (cases mode)
      (auto simp: florence_prompt_for_mode_def prompt_for_mode_of_def dict_get_def
        FLORENCE_TAGS_of_def default_mode_of_def florence_2_def Let_def)
  show ?thesis
  proof (intro conjI impI)
    assume "map_of table m = Some tag"
    then show "prompt_for_mode_of d (Some m) = tag" by (rule hit)
  next
    assume miss: "mode = None \<or> (\<exists>u. mode = Some u \<and> map_of table u = None)"
    show "prompt_for_mode_of d mode = prompt_for_mode_of d (Some dflt)"
      unfolding fallback [OF miss] same by (rule refl)
    { assume "map_of table dflt = Some dtag"
      then show "prompt_for_mode_of d mode = dtag"
        unfolding fallback [OF miss] by (simp add: dict_get_def) }
    { assume "map_of table dflt = None"
      then show "prompt_for_mode_of d mode = ''<MORE_DETAILED_CAPTION>''"
        unfolding fallback [OF miss] by (simp add: dict_get_def) }
  next
    show "map_of MODELS ''florence-2'' = Some florence_2" by (rule MODELS_florence)
    show "florence_prompt_for_mode mode = prompt_for_mode_of florence_2 mode"
      by (simp add: florence_prompt_for_mode_def)
    show "florence_prompt_for_mode mode =
       (if mode = Some ''caption'' then ''<CAPTION>''
        else if mode = Some ''ocr'' then ''<OCR>''
        else if mode = Some ''dense'' then ''<DENSE_CAPTION>''
        else if mode = Some ''od'' then ''<OD>''
        else ''<MORE_DETAILED_CAPTION>'')"
      by (rule concrete)
  qed
qed

theorem prompt_tag_resolution_witness:
  "florence_prompt_for_mode (Some ''caption'') = ''<CAPTION>''
   \<and> florence_prompt_for_mode (Some ''ocr'') = ''<OCR>''
   \<and> florence_prompt_for_mode (Some ''poem'') = ''<MORE_DETAILED_CAPTION>''
   \<and> florence_prompt_for_mode None = florence_prompt_for_mode (Some ''more_detailed'')
   \<and> prompt_for_mode_of (florence_2\<lparr>info_default_mode := Some ''ocr''\<rparr>) (Some ''poem'') = ''<OCR>''
   \<and> prompt_for_mode_of (florence_2\<lparr>info_default_mode := Some ''ocr''\<rparr>) None = ''<OCR>''
   \<and> prompt_for_mode_of blip_base (Some ''poem'') = ''<MORE_DETAILED_CAPTION>''"
proof -
  let ?t = "[(''caption'', ''<CAPTION>''), (''more_detailed'', ''<MORE_DETAILED_CAPTION>''),
       (''ocr'', ''<OCR>''), (''dense'', ''<DENSE_CAPTION>''), (''od'', ''<OD>'')]"
  let ?d = "florence_2\<lparr>info_default_mode := Some ''ocr''\<rparr>"
  have f: "info_modes florence_2 = Some ?t" "info_default_mode florence_2 = Some ''more_detailed''"
    "info_modes ?d = Some ?t" "info_default_mode ?d = Some ''ocr''"
    "info_modes blip_base = None" "info_default_mode blip_base = None"
    by (simp_all add: florence_2_def blip_base_def)
  have a: "florence_prompt_for_mode (Some ''caption'') = ''<CAPTION>''"
    using prompt_tag_resolution [where d = florence_2 and table = ?t
        and dflt = "''more_detailed''" and m = "''caption''" and tag = "''<CAPTION>''"
        and mode = "Some ''caption''"]
    by (simp add: f)
  have b: "florence_prompt_for_mode (Some ''ocr'') = ''<OCR>''"
    using prompt_tag_resolution [where d = florence_2 and table = ?t
        and dflt = "''more_detailed''" and m = "''ocr''" and tag = "''<OCR>''"
        and mode = "Some ''ocr''"]
    by (simp add: f)
  have c: "florence_prompt_for_mode (Some ''poem'') = ''<MORE_DETAILED_CAPTION>''"
    using prompt_tag_resolution [where d = florence_2 and table = ?t
        and dflt = "''more_detailed''" and mode = "Some ''poem''"
        and dtag = "''<MORE_DETAILED_CAPTION>''"]
    by (simp add: f)
  have d: "florence_prompt_for_mode None = florence_prompt_for_mode (Some ''more_detailed'')"
    using prompt_tag_resolution [where d = florence_2 and table = ?t
        and dflt = "''more_detailed''" and mode = None]
      prompt_tag_resolution [where d = florence_2 and table = ?t
        and dflt = "''more_detailed''" and mode = "Some ''more_detailed''"]
    by (simp add: f)
  have e: "prompt_for_mode_of ?d (Some ''poem'') = ''<OCR>''"
    using prompt_tag_resolution [where d = ?d and table = ?t
        and dflt = "''ocr''" and mode = "Some ''poem''" and dtag = "''<OCR>''"]
    by (simp add: f)
  have g: "prompt_for_mode_of ?d None = ''<OCR>''"
    using prompt_tag_resolution [where d = ?d and table = ?t
        and dflt = "''ocr''" and mode = None and dtag = "''<OCR>''"]
    by (simp add: f)
  have h: "prompt_for_mode_of blip_base (Some ''poem'') = ''<MORE_DETAILED_CAPTION>''"
    using prompt_tag_resolution [where d = blip_base and table = "[]"
        and dflt = "''more_detailed''" and mode = "Some ''poem''"]
    by (auto simp: f)
  show ?thesis using a b c d e g h by simp
qed

text \<open>
  Claim C8. POST /caption without an image file answers 400 with the error
  \<open>No image provided\<close>, and with an image whose filename is empty it answers 400 with
  the error \<open>No image selected\<close>; in both cases the state is unchanged: no cache entry
  is added and no library call is made.
\<close>

theorem caption_rejects_missing_image:
  "(files_image req = None \<longrightarrow>
      caption_image env req st =
        (\<lparr>status = 400, body = Json (JObj [(''error'', JStr ''No image provided'')])\<rparr>, st))
   \<and> (files_image req = Some upl \<and> filename upl = [] \<longrightarrow>
      caption_image env req st =
        (\<lparr>status = 400, body = Json (JObj [(''error'', JStr ''No image selected'')])\<rparr>, st))"
  by (simp add: caption_image_def bad_request_def)

theorem caption_rejects_missing_image_witness:
  "caption_image test_env
      \<lparr>files_image = None, form_model = Some ''blip-large'', form_question = None,
       form_mode = None\<rparr> empty_state =
     (\<lparr>status = 400, body = Json (JObj [(''error'', JStr ''No image provided'')])\<rparr>, empty_state)
   \<and> caption_image test_env
      \<lparr>files_image = Some \<lparr>filename = [], stream = ''PNG''\<rparr>, form_model = Some ''blip-large'',
       form_question = None, form_mode = None\<rparr> empty_state =
     (\<lparr>status = 400, body = Json (JObj [(''error'', JStr ''No image selected'')])\<rparr>, empty_state)"
  using caption_rejects_missing_image [where env = test_env and st = empty_state and
      req = "\<lparr>files_image = None, form_model = Some ''blip-large'', form_question = None,
        form_mode = None\<rparr>"]
    caption_rejects_missing_image [where env = test_env and st = empty_state and
      req = "\<lparr>files_image = Some \<lparr>filename = [], stream = ''PNG''\<rparr>,
        form_model = Some ''blip-large'', form_question = None, form_mode = None\<rparr>" and
      upl = "\<lparr>filename = [], stream = ''PNG''\<rparr>"]
  by simp

lemma listed_models:
  "listed (list_models_of models llms) ''models'' = map image_model_entry models"
  "listed (list_models_of models llms) ''llms'' = map llm_entry llms"
  by (simp_all add: listed_def body_field_def list_models_of_def ok_def json_get_def
      json_items_def)

text \<open>
  Claim C9. The response of GET /models has status 200 and lists, in registry order, one
  entry per registered image model under \<open>models\<close> and one per registered text model
  under \<open>llms\<close>. An image entry carries the key, the name, the description, the list of
  mode names (null when the descriptor has no modes) and the default mode (null when it
  has none); a text entry carries the key, the name and the description. The keys of both
  registries are distinct, so every identifier is listed exactly once.
\<close>

theorem list_models_lists_registry:
  "status (list_models_of models llms) = 200
   \<and> map (\<lambda>e. json_get e ''key'') (listed (list_models_of models llms) ''models'')
       = map (\<lambda>(k, i). Some (JStr k)) models
   \<and> map (\<lambda>e. json_get e ''name'') (listed (list_models_of models llms) ''models'')
       = map (\<lambda>(k, i). Some (JStr (info_name i))) models
   \<and> map (\<lambda>e. json_get e ''description'') (listed (list_models_of models llms) ''models'')
       = map (\<lambda>(k, i). Some (JStr (info_description i))) models
   \<and> map (\<lambda>e. json_get e ''modes'') (listed (list_models_of models llms) ''models'')
       = map (\<lambda>(k, i). Some (case info_modes i of
                                 None \<Rightarrow> JNull
                               | Some t \<Rightarrow> if t = [] then JNull else JArr (map (JStr \<circ> fst) t)))
           models
   \<and> map (\<lambda>e. json_get e ''default_mode'') (listed (list_models_of models llms) ''models'')
       = map (\<lambda>(k, i). Some (case info_default_mode i of None \<Rightarrow> JNull | Some m \<Rightarrow> JStr m))
           models
   \<and> map (\<lambda>e. json_get e ''key'') (listed (list_models_of models llms) ''llms'')
       = map (\<lambda>(k, i). Some (JStr k)) llms
   \<and> map (\<lambda>e. json_get e ''name'') (listed (list_models_of models llms) ''llms'')
       = map (\<lambda>(k, i). Some (JStr (info_name i))) llms
   \<and> map (\<lambda>e. json_get e ''description'') (listed (list_models_of models llms) ''llms'')
       = map (\<lambda>(k, i). Some (JStr (info_description i))) llms
   \<and> list_models = list_models_of MODELS LLM_MODELS
   \<and> map fst MODELS = [''blip-base'', ''blip-large'', ''vit-gpt2'', ''florence-2'', ''moondream-2'']
   \<and> map fst LLM_MODELS =
       [''smollm2-1.7b'', ''phi3-mini'', ''gemma2-2b'', ''qwen2.5-1.5b'', ''tinyllama-1.1b'']
   \<and> distinct (map fst MODELS) \<and> distinct (map fst LLM_MODELS)"
proof -
  have st: "status (list_models_of models llms) = 200"
    by (simp add: list_models_of_def ok_def)
  have img: "json_get (image_model_entry e) ''key'' = (case e of (k, i) \<Rightarrow> Some (JStr k))"
    "json_get (image_model_entry e) ''name'' = (case e of (k, i) \<Rightarrow> Some (JStr (info_name i)))"
    "json_get (image_model_entry e) ''description'' =
       (case e of (k, i) \<Rightarrow> Some (JStr (info_description i)))"
    "json_get (image_model_entry e) ''modes'' =
       (case e of (k, i) \<Rightarrow> Some (case info_modes i of
                                 None \<Rightarrow> JNull
                               | Some t \<Rightarrow> if t = [] then JNull else JArr (map (JStr \<circ> fst) t)))"
    "json_get (image_model_entry e) ''default_mode'' =
       (case e of (k, i) \<Rightarrow> Some (case info_default_mode i of None \<Rightarrow> JNull | Some m \<Rightarrow> JStr m))"
    for e
    by (simp_all add: image_model_entry_def json_get_def split: prod.splits)
  have llm: "json_get (llm_entry e) ''key'' = (case e of (k, i) \<Rightarrow> Some (JStr k))"
    "json_get (llm_entry e) ''name'' = (case e of (k, i) \<Rightarrow> Some (JStr (info_name i)))"
    "json_get (llm_entry e) ''description'' =
       (case e of (k, i) \<Rightarrow> Some (JStr (info_description i)))"
    for e
    by (simp_all add: llm_entry_def json_get_def split: prod.splits)
  have keys: "map fst MODELS =
      [''blip-base'', ''blip-large'', ''vit-gpt2'', ''florence-2'', ''moondream-2'']"
    "map fst LLM_MODELS =
      [''smollm2-1.7b'', ''phi3-mini'', ''gemma2-2b'', ''qwen2.5-1.5b'', ''tinyllama-1.1b'']"
    by (simp_all add: MODELS_def LLM_MODELS_def)
  have dist: "distinct (map fst MODELS)" "distinct (map fst LLM_MODELS)"
    unfolding keys by simp_all
  show ?thesis
    using st keys dist
    by (simp add: listed_models img llm list_models_def comp_def)
qed

subsection \<open>The caches\<close>

lemma emit_caches [simp]:
  "model_cache (emit e st) = model_cache st" "llm_cache (emit e st) = llm_cache st"
  by (simp_all add: emit_def)

lemma load_backend_caches:
  assumes "load_backend env info st = (r, st1)"
  shows "model_cache st1 = model_cache st" "llm_cache st1 = llm_cache st"
  using assms by (auto simp: load_backend_def Let_def split: option.splits if_splits)

lemma registered: "map_of reg k = Some i \<Longrightarrow> k \<in> set (map fst reg)"
  by (metis map_of_eq_None_iff option.distinct(1) set_map)

lemma blip_base_registered: "map_of MODELS ''blip-base'' = Some blip_base"
  by (simp add: MODELS_def)

lemma smollm2_registered: "map_of LLM_MODELS ''smollm2-1.7b'' = Some smollm2"
  by (simp add: LLM_MODELS_def)

lemma get_model_cached: "model_cache st k = Some l \<Longrightarrow> get_model env k st = (Inr l, st)"
  by (simp add: get_model_def)

lemma resolved_registered:
  "\<exists>info. map_of MODELS (if map_of MODELS k = None then ''blip-base'' else k) = Some info"
  by (auto simp: blip_base_registered)

lemma get_model_cases:
  assumes "get_model env k st = (r, st')"
  obtains (hit) l where "model_cache st k = Some l" "r = Inr l" "st' = st"
  | (fail) info e where "model_cache st k = None"
      "map_of MODELS (if map_of MODELS k = None then ''blip-base'' else k) = Some info"
      "load_backend env info st = (Inl e, st')" "r = Inl e"
  | (load) info l st1 where "model_cache st k = None"
      "map_of MODELS (if map_of MODELS k = None then ''blip-base'' else k) = Some info"
      "load_backend env info st = (Inr l, st1)" "r = Inr l"
      "st' = st1\<lparr>model_cache := (model_cache st1)
                (if map_of MODELS k = None then ''blip-base'' else k \<mapsto> l)\<rparr>"
proof (cases "model_cache st k")
  case (Some l)
  have "r = Inr l" "st' = st"
    using assms Some by (simp_all add: get_model_def)
  then show ?thesis using Some by (rule_tac hit)
next
  case None
  obtain info where info:
    "map_of MODELS (if map_of MODELS k = None then ''blip-base'' else k) = Some info"
    using resolved_registered by blast
  obtain r1 st1 where lb: "load_backend env info st = (r1, st1)"
    by (cases "load_backend env info st")
  show ?thesis
  proof (cases r1)
    case (Inl e)
    have "r = Inl e" "st' = st1"
      using assms None info lb Inl by (simp_all add: get_model_def Let_def)
    then show ?thesis using None info lb Inl by (rule_tac fail) auto
  next
    case (Inr l)
    have "r = Inr l" "st' = st1\<lparr>model_cache := (model_cache st1)
                (if map_of MODELS k = None then ''blip-base'' else k \<mapsto> l)\<rparr>"
      using assms None info lb Inr by (simp_all add: get_model_def Let_def)
    then show ?thesis using None info lb Inr by (rule_tac load) auto
  qed
qed

lemma get_model_caches:
  assumes "get_model env k st = (r, st')"
  shows "dom (model_cache st') \<subseteq> dom (model_cache st) \<union> set (map fst MODELS)"
    and "llm_cache st' = llm_cache st"
proof -
  from assms show "dom (model_cache st') \<subseteq> dom (model_cache st) \<union> set (map fst MODELS)"
  proof (cases rule: get_model_cases)
    case (hit l)
    then show ?thesis by auto
  next
    case (fail info e)
    then show ?thesis using load_backend_caches(1) [OF fail(3)] by auto
  next
    case (load info l st1)
    have "(if map_of MODELS k = None then ''blip-base'' else k) \<in> set (map fst MODELS)"
      using registered [OF load(2)] .
    then show ?thesis
      using load_backend_caches(1) [OF load(3)] load(5) by auto
  qed
  from assms show "llm_cache st' = llm_cache st"
  proof (cases rule: get_model_cases)
    case (hit l)
    then show ?thesis by simp
  next
    case (fail info e)
    then show ?thesis using load_backend_caches(2) [OF fail(3)] by simp
  next
    case (load info l st1)
    then show ?thesis using load_backend_caches(2) [OF load(3)] by simp
  qed
qed

lemma resolve_pad_token_caches:
  assumes "resolve_pad_token env info p st = (l, st1)"
  shows "model_cache st1 = model_cache st" "llm_cache st1 = llm_cache st" "pipe l = p"
  using assms
  by (auto simp: resolve_pad_token_def Let_def split: option.splits if_splits)

lemma llm_resolved_registered:
  "\<exists>info. map_of LLM_MODELS
       (case j of JStr s \<Rightarrow> if map_of LLM_MODELS s = None then ''smollm2-1.7b'' else s
        | _ \<Rightarrow> ''smollm2-1.7b'') = Some info"
  by (cases j) (auto simp: smollm2_registered)

lemma get_llm_cases:
  assumes "get_llm env j st = (r, st')"
  obtains (unhashable) "\<not> hashable j" "r = Inl TypeError" "st' = st"
  | (hit) l where "hashable j" "json_lookup (llm_cache st) j = Some l" "r = Inr l" "st' = st"
  | (fail) info e where "hashable j" "json_lookup (llm_cache st) j = None"
      "r = Inl e" "llm_cache st' = llm_cache st" "model_cache st' = model_cache st"
  | (load) info l st1 where "hashable j" "json_lookup (llm_cache st) j = None"
      "map_of LLM_MODELS
         (case j of JStr s \<Rightarrow> if map_of LLM_MODELS s = None then ''smollm2-1.7b'' else s
          | _ \<Rightarrow> ''smollm2-1.7b'') = Some info"
      "make_pipeline env (clock st) ''text-generation'' (info_model info) = None"
      "resolve_pad_token env info (Handle (clock st) (info_model info))
         (emit (MakePipeline ''text-generation'' (info_model info)) st) = (l, st1)"
      "r = Inr l"
      "st' = st1\<lparr>llm_cache := (llm_cache st1)
         ((case j of JStr s \<Rightarrow> if map_of LLM_MODELS s = None then ''smollm2-1.7b'' else s
           | _ \<Rightarrow> ''smollm2-1.7b'') \<mapsto> l)\<rparr>"
proof (cases "hashable j")
  case False
  have "r = Inl TypeError" "st' = st"
    using assms False by (simp_all add: get_llm_def)
  then show ?thesis using False by (rule_tac unhashable)
next
  case True
  show ?thesis
  proof (cases "json_lookup (llm_cache st) j")
    case (Some l)
    have "r = Inr l" "st' = st"
      using assms True Some by (simp_all add: get_llm_def)
    then show ?thesis using True Some by (rule_tac hit)
  next
    case None
    obtain info where info: "map_of LLM_MODELS
         (case j of JStr s \<Rightarrow> if map_of LLM_MODELS s = None then ''smollm2-1.7b'' else s
          | _ \<Rightarrow> ''smollm2-1.7b'') = Some info"
      using llm_resolved_registered by blast
    show ?thesis
    proof (cases "make_pipeline env (clock st) ''text-generation'' (info_model info)")
      case (Some e)
      have "r = Inl e" "st' = emit (MakePipeline ''text-generation'' (info_model info)) st"
        using assms True None info Some by (simp_all add: get_llm_def Let_def)
      then show ?thesis using True None by (rule_tac fail) auto
    next
      case mk: None
      obtain l st1 where rp:
        "resolve_pad_token env info (Handle (clock st) (info_model info))
           (emit (MakePipeline ''text-generation'' (info_model info)) st) = (l, st1)"
        by (cases "resolve_pad_token env info (Handle (clock st) (info_model info))
           (emit (MakePipeline ''text-generation'' (info_model info)) st)")
      have "r = Inr l" "st' = st1\<lparr>llm_cache := (llm_cache st1)
         ((case j of JStr s \<Rightarrow> if map_of LLM_MODELS s = None then ''smollm2-1.7b'' else s
           | _ \<Rightarrow> ''smollm2-1.7b'') \<mapsto> l)\<rparr>"
        using assms True None info mk rp by (simp_all add: get_llm_def Let_def)
      then show ?thesis using True None info mk rp by (rule_tac load) auto
    qed
  qed
qed

lemma get_llm_caches:
  assumes "get_llm env j st = (r, st')"
  shows "dom (llm_cache st') \<subseteq> dom (llm_cache st) \<union> set (map fst LLM_MODELS)"
    and "model_cache st' = model_cache st"
proof -
  from assms show "dom (llm_cache st') \<subseteq> dom (llm_cache st) \<union> set (map fst LLM_MODELS)"
  proof (cases rule: get_llm_cases)
    case (load info l st1)
    have "(case j of JStr s \<Rightarrow> if map_of LLM_MODELS s = None then ''smollm2-1.7b'' else s
          | _ \<Rightarrow> ''smollm2-1.7b'') \<in> set (map fst LLM_MODELS)"
      using registered [OF load(3)] .
    then show ?thesis
      using resolve_pad_token_caches(2) [OF load(5)] load(7) by auto
  qed auto
  from assms show "model_cache st' = model_cache st"
  proof (cases rule: get_llm_cases)
    case (load info l st1)
    then show ?thesis using resolve_pad_token_caches(1) [OF load(5)] by simp
  qed auto
qed

lemma adapter_caches:
  "model_cache (snd (florence_caption env p m mode q img st)) = model_cache st"
  "llm_cache (snd (florence_caption env p m mode q img st)) = llm_cache st"
  "model_cache (snd (moondream_answer env m key mode q img st)) = model_cache st"
  "llm_cache (snd (moondream_answer env m key mode q img st)) = llm_cache st"
  "model_cache (snd (pipeline_caption env m img st)) = model_cache st"
  "llm_cache (snd (pipeline_caption env m img st)) = llm_cache st"
  by (simp_all add: florence_caption_def moondream_answer_def pipeline_caption_def Let_def
      split: sum.splits)

lemma cache_ok_get_model: "cache_ok st \<Longrightarrow> cache_ok (snd (get_model env k st))"
  using get_model_caches [of env k st "fst (get_model env k st)" "snd (get_model env k st)"]
  by (simp add: cache_ok_def) blast

lemma cache_ok_get_llm: "cache_ok st \<Longrightarrow> cache_ok (snd (get_llm env j st))"
  using get_llm_caches [of env j st "fst (get_llm env j st)" "snd (get_llm env j st)"]
  by (simp add: cache_ok_def) blast

lemma cache_ok_caches:
  "cache_ok st \<Longrightarrow> model_cache st' = model_cache st \<Longrightarrow> llm_cache st' = llm_cache st
     \<Longrightarrow> cache_ok st'"
  by (simp add: cache_ok_def)

lemma cache_ok_caption_image:
  assumes "cache_ok st"
  shows "cache_ok (snd (caption_image env req st))"
proof (cases "files_image req")
  case None
  then show ?thesis using assms by (simp add: caption_image_def)
next
  case (Some upl)
  show ?thesis
  proof (cases "filename upl = [] \<or> (\<exists>e. image_open env (stream upl) = Inl e)")
    case True
    then show ?thesis using assms Some by (auto simp: caption_image_def Let_def)
  next
    case False
    then obtain img where img: "image_open env (stream upl) = Inr img" and fn: "filename upl \<noteq> []"
      by (cases "image_open env (stream upl)") auto
    obtain r st1 where gm:
      "get_model env (case form_model req of None \<Rightarrow> ''florence-2'' | Some m \<Rightarrow> m) st = (r, st1)"
      by (cases "get_model env (case form_model req of None \<Rightarrow> ''florence-2'' | Some m \<Rightarrow> m) st")
    have ok1: "cache_ok st1"
      using cache_ok_get_model [OF assms, where env = env and
          k = "case form_model req of None \<Rightarrow> ''florence-2'' | Some m \<Rightarrow> m"] gm by simp
    show ?thesis
    proof (cases r)
      case (Inl e)
      then show ?thesis using Some fn img gm ok1 by (simp add: caption_image_def Let_def)
    next
      case (Inr loaded)
      define a where "a = (case loaded of
            LFlorence processor model \<Rightarrow>
              florence_caption env processor model (form_mode req)
                (case form_question req of None \<Rightarrow> [] | Some q \<Rightarrow> q) img st1
          | LMoondream model \<Rightarrow>
              moondream_answer env model
                (case form_model req of None \<Rightarrow> ''florence-2'' | Some m \<Rightarrow> m) (form_mode req)
                (case form_question req of None \<Rightarrow> [] | Some q \<Rightarrow> q) img st1
          | LPipeline captioner_h \<Rightarrow> pipeline_caption env captioner_h img st1)"
      have a: "model_cache (snd a) = model_cache st1" "llm_cache (snd a) = llm_cache st1"
        unfolding a_def by (cases loaded; simp add: adapter_caches)+
      have "snd (caption_image env req st) = snd a"
        using Some fn img gm Inr
        by (simp add: caption_image_def Let_def a_def split: sum.splits prod.splits)
      then have "model_cache (snd (caption_image env req st)) = model_cache st1
          \<and> llm_cache (snd (caption_image env req st)) = llm_cache st1"
        using a by simp
      then show ?thesis using ok1 cache_ok_caches by blast
    qed
  qed
qed

lemma cache_ok_generate_text:
  assumes "cache_ok st"
  shows "cache_ok (snd (generate_text env request_json st))"
proof (cases "read_generate_args env request_json")
  case (Inl e)
  then show ?thesis using assms by (simp add: generate_text_def)
next
  case (Inr a)
  obtain r st1 where gl: "get_llm env (arg_model_key a) st = (r, st1)"
    by (cases "get_llm env (arg_model_key a) st")
  have ok1: "cache_ok st1"
    using cache_ok_get_llm [OF assms, where env = env and j = "arg_model_key a"] gl by simp
  have "model_cache (snd (run_generate env a st)) = model_cache st1
      \<and> llm_cache (snd (run_generate env a st)) = llm_cache st1"
    using gl by (cases r) (simp_all add: run_generate_def Let_def split: sum.splits)
  then have "cache_ok (snd (run_generate env a st))"
    using ok1 cache_ok_caches by blast
  then show ?thesis using Inr by (simp add: generate_text_def)
qed

lemma cache_ok_empty: "cache_ok empty_state"
  by (simp add: cache_ok_def empty_state_def)

lemma cache_ok_card:
  assumes "cache_ok st"
  shows "card (dom (model_cache st)) \<le> length MODELS"
    and "card (dom (llm_cache st)) \<le> length LLM_MODELS"
proof -
  have "card (dom (model_cache st)) \<le> card (set (map fst MODELS))"
    using assms by (intro card_mono) (simp_all add: cache_ok_def)
  also have "\<dots> \<le> length (map fst MODELS)" by (rule card_length)
  finally show "card (dom (model_cache st)) \<le> length MODELS" by simp
  have "card (dom (llm_cache st)) \<le> card (set (map fst LLM_MODELS))"
    using assms by (intro card_mono) (simp_all add: cache_ok_def)
  also have "\<dots> \<le> length (map fst LLM_MODELS)" by (rule card_length)
  finally show "card (dom (llm_cache st)) \<le> length LLM_MODELS" by simp
qed

lemma unregistered_not_cached:
  assumes "cache_ok st" "map_of MODELS k = None"
  shows "model_cache st k = None"
proof -
  have "k \<notin> set (map fst MODELS)"
    using assms(2) by (simp add: map_of_eq_None_iff)
  then show ?thesis using assms(1) by (auto simp: cache_ok_def)
qed

lemma get_model_unregistered:
  assumes "cache_ok st" "map_of MODELS k = None" "get_model env k st = (Inr l, st')"
  shows "model_cache st' = (model_cache st)(''blip-base'' \<mapsto> l)" "model_cache st' k = None"
proof -
  have miss: "model_cache st k = None"
    using unregistered_not_cached [OF assms(1,2)] .
  from assms(3) show "model_cache st' = (model_cache st)(''blip-base'' \<mapsto> l)"
  proof (cases rule: get_model_cases)
    case (hit l')
    then show ?thesis using miss by simp
  next
    case (fail info e)
    then show ?thesis by simp
  next
    case (load info l' st1)
    then show ?thesis using load_backend_caches(1) [OF load(3)] assms(2) by simp
  qed
  have "cache_ok st'"
    using cache_ok_get_model [OF assms(1), of env k] assms(3) by simp
  then show "model_cache st' k = None"
    using unregistered_not_cached assms(2) by blast
qed

lemma get_llm_unregistered:
  assumes "cache_ok st" "\<forall>s. j = JStr s \<longrightarrow> map_of LLM_MODELS s = None"
    "get_llm env j st = (Inr l, st')"
  shows "llm_cache st' = (llm_cache st)(''smollm2-1.7b'' \<mapsto> l)"
    "json_lookup (llm_cache st') j = None"
proof -
  have res: "(case j of JStr s \<Rightarrow> if map_of LLM_MODELS s = None then ''smollm2-1.7b'' else s
           | _ \<Rightarrow> ''smollm2-1.7b'') = ''smollm2-1.7b''"
    using assms(2) by (cases j) auto
  have none: "json_lookup c j = None" if "dom c \<subseteq> set (map fst LLM_MODELS)" for c :: "string \<rightharpoonup> llm_loaded"
  proof (cases j)
    case (JStr s)
    then have "s \<notin> set (map fst LLM_MODELS)"
      using assms(2) by (simp add: map_of_eq_None_iff)
    then show ?thesis using that JStr by (auto simp: json_lookup_def)
  qed (simp_all add: json_lookup_def)
  have miss: "json_lookup (llm_cache st) j = None"
    using none assms(1) by (simp add: cache_ok_def)
  from assms(3) show "llm_cache st' = (llm_cache st)(''smollm2-1.7b'' \<mapsto> l)"
  proof (cases rule: get_llm_cases)
    case (hit l')
    then show ?thesis using miss by simp
  next
    case (load info l' st1)
    then show ?thesis using resolve_pad_token_caches(2) [OF load(5)] res by simp
  qed simp_all
  have "cache_ok st'"
    using cache_ok_get_llm [OF assms(1), of env j] assms(3) by simp
  then show "json_lookup (llm_cache st') j = None"
    using none by (simp add: cache_ok_def)
qed

text \<open>
  Claim C10. The keys of each cache are keys of its registry: this holds of the empty
  caches and of the state after startup, and \<open>get_model\<close>, \<open>get_llm\<close>, POST /caption and
  POST /generate keep it, so a cache never holds more entries than its registry. A
  successful \<open>get_model\<close> with an unregistered identifier stores the backend under
  \<open>blip-base\<close>, a successful \<open>get_llm\<close> with an unregistered key stores it under
  \<open>smollm2-1.7b\<close>, and neither stores anything under the unregistered identifier.
\<close>

theorem cache_keys_registered:
  "cache_ok empty_state \<and> cache_ok (create_app env)
   \<and> (cache_ok st \<longrightarrow>
        cache_ok (snd (get_model env key st)) \<and> cache_ok (snd (get_llm env jkey st))
        \<and> cache_ok (snd (caption_image env req st))
        \<and> cache_ok (snd (generate_text env request_json st))
        \<and> card (dom (model_cache st)) \<le> length MODELS
        \<and> card (dom (llm_cache st)) \<le> length LLM_MODELS
        \<and> (map_of MODELS key = None \<and> get_model env key st = (Inr l, st') \<longrightarrow>
             model_cache st' = (model_cache st)(''blip-base'' \<mapsto> l)
             \<and> model_cache st' key = None)
        \<and> ((\<forall>s. jkey = JStr s \<longrightarrow> map_of LLM_MODELS s = None)
             \<and> get_llm env jkey st = (Inr ll, st'') \<longrightarrow>
             llm_cache st'' = (llm_cache st)(''smollm2-1.7b'' \<mapsto> ll)
             \<and> json_lookup (llm_cache st'') jkey = None))"
proof (intro conjI impI)
  show "cache_ok empty_state" by (rule cache_ok_empty)
  show "cache_ok (create_app env)"
    unfolding create_app_def by (rule cache_ok_get_model [OF cache_ok_empty])
next
  assume ok: "cache_ok st"
  show "cache_ok (snd (get_model env key st))" by (rule cache_ok_get_model [OF ok])
  show "cache_ok (snd (get_llm env jkey st))" by (rule cache_ok_get_llm [OF ok])
  show "cache_ok (snd (caption_image env req st))" by (rule cache_ok_caption_image [OF ok])
  show "cache_ok (snd (generate_text env request_json st))"
    by (rule cache_ok_generate_text [OF ok])
  show "card (dom (model_cache st)) \<le> length MODELS" by (rule cache_ok_card(1) [OF ok])
  show "card (dom (llm_cache st)) \<le> length LLM_MODELS" by (rule cache_ok_card(2) [OF ok])
  { assume h: "map_of MODELS key = None \<and> get_model env key st = (Inr l, st')"
    show "model_cache st' = (model_cache st)(''blip-base'' \<mapsto> l)"
      using get_model_unregistered(1) [OF ok] h by blast
    show "model_cache st' key = None"
      using get_model_unregistered(2) [OF ok] h by blast }
  { assume h: "(\<forall>s. jkey = JStr s \<longrightarrow> map_of LLM_MODELS s = None)
        \<and> get_llm env jkey st = (Inr ll, st'')"
    show "llm_cache st'' = (llm_cache st)(''smollm2-1.7b'' \<mapsto> ll)"
      using get_llm_unregistered(1) [OF ok] h by blast
    show "json_lookup (llm_cache st'') jkey = None"
      using get_llm_unregistered(2) [OF ok] h by blast }
qed

subsection \<open>Evaluation in the test double\<close>

lemma blip_unregistered_foo: "map_of MODELS ''foo'' = None" "map_of LLM_MODELS ''foo'' = None"
  by (simp_all add: MODELS_def LLM_MODELS_def)

lemma get_model_foo:
  "get_model test_env ''foo'' empty_state =
     (Inr (LPipeline (Handle 0 ''Salesforce/blip-image-captioning-base'')),
      \<lparr>model_cache = [''blip-base'' \<mapsto> LPipeline (Handle 0 ''Salesforce/blip-image-captioning-base'')],
       llm_cache = Map.empty,
       trace = [MakePipeline ''image-to-text'' ''Salesforce/blip-image-captioning-base'']\<rparr>)"
  by (simp add: get_model_def load_backend_def test_env_def empty_state_def
      blip_unregistered_foo blip_base_registered blip_base_def emit_def clock_def Let_def)

lemma get_model_foo_again:
  "get_model test_env ''foo''
      \<lparr>model_cache = [''blip-base'' \<mapsto> LPipeline (Handle 0 ''Salesforce/blip-image-captioning-base'')],
       llm_cache = Map.empty,
       trace = [MakePipeline ''image-to-text'' ''Salesforce/blip-image-captioning-base'']\<rparr> =
     (Inr (LPipeline (Handle 1 ''Salesforce/blip-image-captioning-base'')),
      \<lparr>model_cache = [''blip-base'' \<mapsto> LPipeline (Handle 1 ''Salesforce/blip-image-captioning-base'')],
       llm_cache = Map.empty,
       trace = [MakePipeline ''image-to-text'' ''Salesforce/blip-image-captioning-base'',
                MakePipeline ''image-to-text'' ''Salesforce/blip-image-captioning-base'']\<rparr>)"
  by (simp add: get_model_def load_backend_def test_env_def
      blip_unregistered_foo blip_base_registered blip_base_def emit_def clock_def Let_def)

lemma get_llm_foo:
  "get_llm test_env (JStr ''foo'') empty_state =
     (Inr \<lparr>pipe = Handle 0 ''HuggingFaceTB/SmolLM2-1.7B-Instruct'', pad_token_id = Some 128000\<rparr>,
      \<lparr>model_cache = Map.empty,
       llm_cache = [''smollm2-1.7b'' \<mapsto>
          \<lparr>pipe = Handle 0 ''HuggingFaceTB/SmolLM2-1.7B-Instruct'', pad_token_id = Some 128000\<rparr>],
       trace = [MakePipeline ''text-generation'' ''HuggingFaceTB/SmolLM2-1.7B-Instruct'',
                SetPadToken (Handle 0 ''HuggingFaceTB/SmolLM2-1.7B-Instruct'') 128000]\<rparr>)"
  by (simp add: get_llm_def resolve_pad_token_def hashable_def json_lookup_def test_env_def
      empty_state_def blip_unregistered_foo smollm2_registered smollm2_def emit_def clock_def
      Let_def)

lemma get_llm_foo_again:
  "get_llm test_env (JStr ''foo'')
      \<lparr>model_cache = Map.empty,
       llm_cache = [''smollm2-1.7b'' \<mapsto>
          \<lparr>pipe = Handle 0 ''HuggingFaceTB/SmolLM2-1.7B-Instruct'', pad_token_id = Some 128000\<rparr>],
       trace = [MakePipeline ''text-generation'' ''HuggingFaceTB/SmolLM2-1.7B-Instruct'',
                SetPadToken (Handle 0 ''HuggingFaceTB/SmolLM2-1.7B-Instruct'') 128000]\<rparr> =
     (Inr \<lparr>pipe = Handle 2 ''HuggingFaceTB/SmolLM2-1.7B-Instruct'', pad_token_id = Some 128000\<rparr>,
      \<lparr>model_cache = Map.empty,
       llm_cache = [''smollm2-1.7b'' \<mapsto>
          \<lparr>pipe = Handle 2 ''HuggingFaceTB/SmolLM2-1.7B-Instruct'', pad_token_id = Some 128000\<rparr>],
       trace = [MakePipeline ''text-generation'' ''HuggingFaceTB/SmolLM2-1.7B-Instruct'',
                SetPadToken (Handle 0 ''HuggingFaceTB/SmolLM2-1.7B-Instruct'') 128000,
                MakePipeline ''text-generation'' ''HuggingFaceTB/SmolLM2-1.7B-Instruct'',
                SetPadToken (Handle 2 ''HuggingFaceTB/SmolLM2-1.7B-Instruct'') 128000]\<rparr>)"
  by (simp add: get_llm_def resolve_pad_token_def hashable_def json_lookup_def test_env_def
      blip_unregistered_foo smollm2_registered smollm2_def emit_def clock_def Let_def
      numeral_2_eq_2)

theorem cache_keys_registered_witness:
  "cache_ok empty_state
   \<and> map_of MODELS ''foo'' = None
   \<and> cache_ok (snd (get_model test_env ''foo'' empty_state))
   \<and> model_cache (snd (get_model test_env ''foo'' empty_state)) =
       [''blip-base'' \<mapsto> LPipeline (Handle 0 ''Salesforce/blip-image-captioning-base'')]
   \<and> model_cache (snd (get_model test_env ''foo'' empty_state)) ''foo'' = None
   \<and> llm_cache (snd (get_llm test_env (JStr ''foo'') empty_state)) =
       [''smollm2-1.7b'' \<mapsto>
          \<lparr>pipe = Handle 0 ''HuggingFaceTB/SmolLM2-1.7B-Instruct'', pad_token_id = Some 128000\<rparr>]
   \<and> card (dom (model_cache empty_state)) \<le> length MODELS"
proof -
  have ok: "cache_ok empty_state"
    by (simp add: cache_ok_def empty_state_def)
  have e: "model_cache empty_state = Map.empty" "llm_cache empty_state = Map.empty"
    by (simp_all add: empty_state_def)
  show ?thesis
    using ok cache_keys_registered [where env = test_env and st = empty_state and key = "''foo''"
        and l = "LPipeline (Handle 0 ''Salesforce/blip-image-captioning-base'')"
        and st' = "snd (get_model test_env ''foo'' empty_state)"
        and jkey = "JStr ''foo''"
        and ll = "\<lparr>pipe = Handle 0 ''HuggingFaceTB/SmolLM2-1.7B-Instruct'',
                  pad_token_id = Some 128000\<rparr>"
        and st'' = "snd (get_llm test_env (JStr ''foo'') empty_state)"]
    by (simp add: get_model_foo get_llm_foo blip_unregistered_foo e)
qed

text \<open>
  Claim C3, evaluated where it fails. \<open>get_model\<close> looks the requested identifier up in
  the cache before it replaces an unregistered identifier by \<open>blip-base\<close>, and the entry
  is stored under \<open>blip-base\<close>; so the second of two calls with the unregistered
  identifier \<open>foo\<close> misses the cache again, initialises the pipeline a second time and
  returns a new handle. \<open>get_llm\<close> does the same with \<open>smollm2-1.7b\<close>.
\<close>

theorem unregistered_identifier_reloads:
  "fst (get_model test_env ''foo'' empty_state) =
     Inr (LPipeline (Handle 0 ''Salesforce/blip-image-captioning-base''))
   \<and> fst (get_model test_env ''foo'' (snd (get_model test_env ''foo'' empty_state))) =
     Inr (LPipeline (Handle 1 ''Salesforce/blip-image-captioning-base''))
   \<and> trace (snd (get_model test_env ''foo'' (snd (get_model test_env ''foo'' empty_state)))) =
     [MakePipeline ''image-to-text'' ''Salesforce/blip-image-captioning-base'',
      MakePipeline ''image-to-text'' ''Salesforce/blip-image-captioning-base'']
   \<and> fst (get_llm test_env (JStr ''foo'') empty_state) =
     Inr \<lparr>pipe = Handle 0 ''HuggingFaceTB/SmolLM2-1.7B-Instruct'', pad_token_id = Some 128000\<rparr>
   \<and> fst (get_llm test_env (JStr ''foo'') (snd (get_llm test_env (JStr ''foo'') empty_state))) =
     Inr \<lparr>pipe = Handle 2 ''HuggingFaceTB/SmolLM2-1.7B-Instruct'', pad_token_id = Some 128000\<rparr>
   \<and> trace (snd (get_llm test_env (JStr ''foo'')
        (snd (get_llm test_env (JStr ''foo'') empty_state)))) =
     [MakePipeline ''text-generation'' ''HuggingFaceTB/SmolLM2-1.7B-Instruct'',
      SetPadToken (Handle 0 ''HuggingFaceTB/SmolLM2-1.7B-Instruct'') 128000,
      MakePipeline ''text-generation'' ''HuggingFaceTB/SmolLM2-1.7B-Instruct'',
      SetPadToken (Handle 2 ''HuggingFaceTB/SmolLM2-1.7B-Instruct'') 128000]"
  by (simp add: get_model_foo get_model_foo_again get_llm_foo get_llm_foo_again)

subsection \<open>POST /generate\<close>

lemma startswith_iff: "startswith g p \<longleftrightarrow> (\<exists>rest. g = p @ rest)"
  unfolding startswith_def by (metis append_eq_conv_conj append_take_drop_id)

lemma read_generate_args_object:
  "read_generate_args env (Some (JObj d)) =
     (case py_int env (field d ''max_new_tokens'' (JInt 256)) of
        Inl e \<Rightarrow> Inl e
      | Inr n \<Rightarrow>
         (case py_float env (field d ''temperature'' (JFloat default_temperature)) of
            Inl e \<Rightarrow> Inl e
          | Inr t \<Rightarrow>
             Inr \<lparr>arg_prompt = field d ''prompt'' (JStr []),
                  arg_model_key = field d ''model'' (JStr ''smollm2-1.7b''),
                  arg_max_new_tokens = n, arg_temperature = t\<rparr>))"
proof (cases "d = []")
  case True
  show ?thesis unfolding True by (simp add: read_generate_args_def truthy_def)
next
  case False
  then show ?thesis by (simp add: read_generate_args_def truthy_def)
qed

lemma read_generate_args_empty:
  assumes "request_json = None \<or> (\<exists>j. request_json = Some j \<and> \<not> truthy j)"
  shows "read_generate_args env request_json =
     Inr \<lparr>arg_prompt = JStr [], arg_model_key = JStr ''smollm2-1.7b'',
          arg_max_new_tokens = 256, arg_temperature = default_temperature\<rparr>"
  using assms
  by (auto simp: read_generate_args_def field_def py_int_def py_float_def)

text \<open>
  Claim C5. When POST /generate reaches the backend with a string prompt and the backend
  returns a string: if the generated text begins with the prompt, the \<open>text\<close> field of
  the response is the generated text without that prefix; otherwise it is the generated
  text unchanged. The response has status 200 and echoes the requested model.
\<close>

theorem generate_strips_prompt:
  assumes "read_generate_args env request_json = Inr a"
    and "arg_prompt a = JStr p"
    and "get_llm env (arg_model_key a) st = (Inr loaded, st_llm)"
    and "text_generation env (clock st_llm) (pipe loaded) (JStr p) (arg_max_new_tokens a)
           (arg_temperature a) (pad_token_id loaded) = Inr (JStr g)"
  shows "(\<forall>rest. g = p @ rest \<longrightarrow>
            fst (generate_text env request_json st) =
              \<lparr>status = 200,
               body = Json (JObj [(''text'', JStr rest), (''model'', arg_model_key a)])\<rparr>)
       \<and> ((\<forall>rest. g \<noteq> p @ rest) \<longrightarrow>
            fst (generate_text env request_json st) =
              \<lparr>status = 200,
               body = Json (JObj [(''text'', JStr g), (''model'', arg_model_key a)])\<rparr>)"
proof -
  have r: "fst (generate_text env request_json st) =
      \<lparr>status = 200,
       body = Json (JObj [(''text'', JStr (if startswith g p then drop (length p) g else g)),
                          (''model'', arg_model_key a)])\<rparr>"
    using assms by (simp add: generate_text_def run_generate_def strip_prompt_def ok_def Let_def)
  show ?thesis
  proof (intro conjI allI impI)
    fix rest assume "g = p @ rest"
    then show "fst (generate_text env request_json st) =
        \<lparr>status = 200,
         body = Json (JObj [(''text'', JStr rest), (''model'', arg_model_key a)])\<rparr>"
      using r by (simp add: startswith_def)
  next
    assume "\<forall>rest. g \<noteq> p @ rest"
    then have "\<not> startswith g p" by (simp add: startswith_iff)
    then show "fst (generate_text env request_json st) =
        \<lparr>status = 200,
         body = Json (JObj [(''text'', JStr g), (''model'', arg_model_key a)])\<rparr>"
      using r by simp
  qed
qed

lemma get_llm_default:
  "get_llm test_env (JStr ''smollm2-1.7b'') empty_state =
     (Inr \<lparr>pipe = Handle 0 ''HuggingFaceTB/SmolLM2-1.7B-Instruct'', pad_token_id = Some 128000\<rparr>,
      \<lparr>model_cache = Map.empty,
       llm_cache = [''smollm2-1.7b'' \<mapsto>
          \<lparr>pipe = Handle 0 ''HuggingFaceTB/SmolLM2-1.7B-Instruct'', pad_token_id = Some 128000\<rparr>],
       trace = [MakePipeline ''text-generation'' ''HuggingFaceTB/SmolLM2-1.7B-Instruct'',
                SetPadToken (Handle 0 ''HuggingFaceTB/SmolLM2-1.7B-Instruct'') 128000]\<rparr>)"
  by (simp add: get_llm_def resolve_pad_token_def hashable_def json_lookup_def test_env_def
      empty_state_def smollm2_registered smollm2_def emit_def clock_def Let_def)

theorem generate_strips_prompt_witness:
  "fst (generate_text test_env (Some (JObj [(''prompt'', JStr ''Hello'')])) empty_state) =
     \<lparr>status = 200,
      body = Json (JObj [(''text'', JStr '' world''), (''model'', JStr ''smollm2-1.7b'')])\<rparr>
   \<and> fst (generate_text test_env (Some (JObj [(''prompt'', JStr ''Hi'')])) empty_state) =
     \<lparr>status = 200,
      body = Json (JObj [(''text'', JStr ''Once upon a time''),
                         (''model'', JStr ''smollm2-1.7b'')])\<rparr>"
proof -
  have args: "read_generate_args test_env (Some (JObj [(''prompt'', JStr q)])) =
      Inr \<lparr>arg_prompt = JStr q, arg_model_key = JStr ''smollm2-1.7b'',
           arg_max_new_tokens = 256, arg_temperature = default_temperature\<rparr>" for q
    by (simp add: read_generate_args_object field_def py_int_def py_float_def)
  have gen: "text_generation test_env t h (JStr ''Hello'') n temp pad = Inr (JStr ''Hello world'')"
    "text_generation test_env t h (JStr ''Hi'') n temp pad = Inr (JStr ''Once upon a time'')"
    for t h n temp pad
    by (simp_all add: test_env_def)
  let ?l = "\<lparr>pipe = Handle 0 ''HuggingFaceTB/SmolLM2-1.7B-Instruct'',
             pad_token_id = Some 128000\<rparr>"
  let ?s1 = "\<lparr>model_cache = Map.empty, llm_cache = [''smollm2-1.7b'' \<mapsto> ?l],
       trace = [MakePipeline ''text-generation'' ''HuggingFaceTB/SmolLM2-1.7B-Instruct'',
                SetPadToken (Handle 0 ''HuggingFaceTB/SmolLM2-1.7B-Instruct'') 128000]\<rparr>"
  let ?a = "\<lambda>q. \<lparr>arg_prompt = JStr q, arg_model_key = JStr ''smollm2-1.7b'',
           arg_max_new_tokens = 256, arg_temperature = default_temperature\<rparr>"
  have a: "fst (generate_text test_env (Some (JObj [(''prompt'', JStr ''Hello'')])) empty_state) =
     \<lparr>status = 200,
      body = Json (JObj [(''text'', JStr '' world''), (''model'', JStr ''smollm2-1.7b'')])\<rparr>"
    using generate_strips_prompt [where env = test_env and st = empty_state
        and request_json = "Some (JObj [(''prompt'', JStr ''Hello'')])"
        and a = "?a ''Hello''" and p = "''Hello''" and loaded = ?l and st_llm = ?s1
        and g = "''Hello world''"]
    by (simp add: args get_llm_default gen)
  have b: "fst (generate_text test_env (Some (JObj [(''prompt'', JStr ''Hi'')])) empty_state) =
     \<lparr>status = 200,
      body = Json (JObj [(''text'', JStr ''Once upon a time''),
                         (''model'', JStr ''smollm2-1.7b'')])\<rparr>"
    using generate_strips_prompt [where env = test_env and st = empty_state
        and request_json = "Some (JObj [(''prompt'', JStr ''Hi'')])"
        and a = "?a ''Hi''" and p = "''Hi''" and loaded = ?l and st_llm = ?s1
        and g = "''Once upon a time''"]
    by (simp add: args get_llm_default gen)
  show ?thesis using a b by simp
qed

lemma py_int_shapes:
  "py_int env (JInt n) = Inr n"
  "py_int env (JBool b) = Inr (if b then 1 else 0)"
  "py_int env (JFloat f) = float_to_int env f"
  "py_int env (JStr s) = str_to_int env s"
  "py_int env JNull = Inl TypeError"
  "py_int env (JArr xs) = Inl TypeError"
  "py_int env (JObj ob) = Inl TypeError"
  by (simp_all add: py_int_def)

lemma py_float_shapes:
  "py_float env (JFloat f) = Inr f"
  "py_float env (JInt n) = int_to_float env n"
  "py_float env (JBool b) = int_to_float env (if b then 1 else 0)"
  "py_float env (JStr s) = str_to_float env s"
  "py_float env JNull = Inl TypeError"
  "py_float env (JArr xs) = Inl TypeError"
  "py_float env (JObj ob) = Inl TypeError"
  by (simp_all add: py_float_def)

lemma read_generate_args_not_object:
  assumes "truthy j" and "\<forall>d. j \<noteq> JObj d"
  shows "read_generate_args env (Some j) = Inl AttributeError"
  using assms by (cases j) (simp_all add: read_generate_args_def)

text \<open>
  Claim C2, as amended. POST /generate reads its arguments from the JSON body. A body
  that is absent, does not parse or is falsy counts as the empty object, and the request
  proceeds with every default: \<open>prompt\<close> the empty string, \<open>model\<close> \<open>smollm2-1.7b\<close>,
  \<open>max_new_tokens\<close> 256, \<open>temperature\<close> 0.7. A truthy body that is not an object
  answers 500. In an object, every field that is absent takes its default and every field
  that is present is used as given: \<open>prompt\<close> and \<open>model\<close> unchanged,
  \<open>max_new_tokens\<close> through \<open>int()\<close> and \<open>temperature\<close> through \<open>float()\<close>. When both
  conversions succeed the request proceeds to load the model and generate with exactly
  these values, which are the ones passed to the generation call; when \<open>int()\<close>
  raises, or \<open>int()\<close> succeeds and \<open>float()\<close> raises, the request answers 500
  with that exception and loads nothing. \<open>int()\<close> keeps an integer,
  maps a boolean to 0 or 1, converts a float or a string numerically, and raises
  \<open>TypeError\<close> on null, a list or an object; \<open>float()\<close> keeps a float, converts an
  integer, a boolean or a string numerically, and raises \<open>TypeError\<close> on null, a list or
  an object.
\<close>

theorem generate_defaults_for_absent_fields:
  "((request_json = None \<or> (\<exists>j. request_json = Some j \<and> \<not> truthy j)) \<longrightarrow>
      read_generate_args env request_json =
        Inr \<lparr>arg_prompt = JStr [], arg_model_key = JStr ''smollm2-1.7b'',
             arg_max_new_tokens = 256, arg_temperature = default_temperature\<rparr>
      \<and> generate_text env request_json st =
          run_generate env
            \<lparr>arg_prompt = JStr [], arg_model_key = JStr ''smollm2-1.7b'',
             arg_max_new_tokens = 256, arg_temperature = default_temperature\<rparr> st)
   \<and> (truthy body_json \<and> (\<forall>ob. body_json \<noteq> JObj ob) \<longrightarrow>
        generate_text env (Some body_json) st =
          (\<lparr>status = 500, body = Failure ''Error generating text: '' AttributeError\<rparr>, st))
   \<and> (prompt = (case map_of d ''prompt'' of None \<Rightarrow> JStr [] | Some v \<Rightarrow> v)
      \<and> model = (case map_of d ''model'' of None \<Rightarrow> JStr ''smollm2-1.7b'' | Some v \<Rightarrow> v)
      \<and> tokens = (case map_of d ''max_new_tokens'' of None \<Rightarrow> Inr 256 | Some v \<Rightarrow> py_int env v)
      \<and> temp = (case map_of d ''temperature'' of
                  None \<Rightarrow> Inr (Float64 0x3FE6666666666666) | Some v \<Rightarrow> py_float env v) \<longrightarrow>
        (tokens = Inr n \<and> temp = Inr t \<longrightarrow>
           read_generate_args env (Some (JObj d)) =
             Inr \<lparr>arg_prompt = prompt, arg_model_key = model,
                  arg_max_new_tokens = n, arg_temperature = t\<rparr>
           \<and> generate_text env (Some (JObj d)) st =
               run_generate env
                 \<lparr>arg_prompt = prompt, arg_model_key = model,
                  arg_max_new_tokens = n, arg_temperature = t\<rparr> st)
      \<and> (tokens = Inl e \<longrightarrow>
           generate_text env (Some (JObj d)) st =
             (\<lparr>status = 500, body = Failure ''Error generating text: '' e\<rparr>, st))
      \<and> (tokens = Inr n \<and> temp = Inl e \<longrightarrow>
           generate_text env (Some (JObj d)) st =
             (\<lparr>status = 500, body = Failure ''Error generating text: '' e\<rparr>, st))
      \<and> (tokens = Inr n \<and> temp = Inr t \<and> get_llm env model st = (Inr loaded, st_llm) \<longrightarrow>
           trace (snd (generate_text env (Some (JObj d)) st)) =
             trace st_llm @ [TextGeneration (pipe loaded) prompt n t (pad_token_id loaded)]))
   \<and> py_int env (JInt i) = Inr i
   \<and> py_int env (JBool b) = Inr (if b then 1 else 0)
   \<and> py_int env (JFloat f) = float_to_int env f
   \<and> py_int env (JStr s) = str_to_int env s
   \<and> py_int env JNull = Inl TypeError
   \<and> py_int env (JArr xs) = Inl TypeError
   \<and> py_int env (JObj kvs) = Inl TypeError
   \<and> py_float env (JFloat f) = Inr f
   \<and> py_float env (JInt i) = int_to_float env i
   \<and> py_float env (JBool b) = int_to_float env (if b then 1 else 0)
   \<and> py_float env (JStr s) = str_to_float env s
   \<and> py_float env JNull = Inl TypeError
   \<and> py_float env (JArr xs) = Inl TypeError
   \<and> py_float env (JObj kvs) = Inl TypeError
   \<and> default_temperature = Float64 0x3FE6666666666666"
proof -
  let ?dflt = "\<lparr>arg_prompt = JStr [], arg_model_key = JStr ''smollm2-1.7b'',
             arg_max_new_tokens = 256, arg_temperature = default_temperature\<rparr>"
  have empty: "read_generate_args env request_json = Inr ?dflt
      \<and> generate_text env request_json st = run_generate env ?dflt st"
    if h: "request_json = None \<or> (\<exists>j. request_json = Some j \<and> \<not> truthy j)"
    using read_generate_args_empty [OF h, of env] by (simp add: generate_text_def)
  have notobj: "generate_text env (Some body_json) st =
          (\<lparr>status = 500, body = Failure ''Error generating text: '' AttributeError\<rparr>, st)"
    if h: "truthy body_json \<and> (\<forall>ob. body_json \<noteq> JObj ob)"
    using read_generate_args_not_object [of body_json env] h
    by (simp add: generate_text_def server_error_def)
  have obj: "(tokens = Inr n \<and> temp = Inr t \<longrightarrow>
           read_generate_args env (Some (JObj d)) =
             Inr \<lparr>arg_prompt = prompt, arg_model_key = model,
                  arg_max_new_tokens = n, arg_temperature = t\<rparr>
           \<and> generate_text env (Some (JObj d)) st =
               run_generate env
                 \<lparr>arg_prompt = prompt, arg_model_key = model,
                  arg_max_new_tokens = n, arg_temperature = t\<rparr> st)
      \<and> (tokens = Inl e \<longrightarrow>
           generate_text env (Some (JObj d)) st =
             (\<lparr>status = 500, body = Failure ''Error generating text: '' e\<rparr>, st))
      \<and> (tokens = Inr n \<and> temp = Inl e \<longrightarrow>
           generate_text env (Some (JObj d)) st =
             (\<lparr>status = 500, body = Failure ''Error generating text: '' e\<rparr>, st))
      \<and> (tokens = Inr n \<and> temp = Inr t \<and> get_llm env model st = (Inr loaded, st_llm) \<longrightarrow>
           trace (snd (generate_text env (Some (JObj d)) st)) =
             trace st_llm @ [TextGeneration (pipe loaded) prompt n t (pad_token_id loaded)])"
    if h: "prompt = (case map_of d ''prompt'' of None \<Rightarrow> JStr [] | Some v \<Rightarrow> v)
      \<and> model = (case map_of d ''model'' of None \<Rightarrow> JStr ''smollm2-1.7b'' | Some v \<Rightarrow> v)
      \<and> tokens = (case map_of d ''max_new_tokens'' of None \<Rightarrow> Inr 256 | Some v \<Rightarrow> py_int env v)
      \<and> temp = (case map_of d ''temperature'' of
                  None \<Rightarrow> Inr (Float64 0x3FE6666666666666) | Some v \<Rightarrow> py_float env v)"
  proof -
    have p: "field d ''prompt'' (JStr []) = prompt"
      "field d ''model'' (JStr ''smollm2-1.7b'') = model"
      using h by (simp_all add: field_def)
    have n: "py_int env (field d ''max_new_tokens'' (JInt 256)) = tokens"
      using h by (simp add: field_def py_int_def split: option.splits)
    have t: "py_float env (field d ''temperature'' (JFloat default_temperature)) = temp"
      using h by (simp add: field_def py_float_def default_temperature_def split: option.splits)
    have r: "read_generate_args env (Some (JObj d)) =
       (case tokens of
          Inl e \<Rightarrow> Inl e
        | Inr n \<Rightarrow>
           (case temp of
              Inl e \<Rightarrow> Inl e
            | Inr t \<Rightarrow>
               Inr \<lparr>arg_prompt = prompt, arg_model_key = model,
                    arg_max_new_tokens = n, arg_temperature = t\<rparr>))"
      unfolding read_generate_args_object p n t by (rule refl)
    have run: "trace (snd (run_generate env a st)) =
        trace st_llm @ [TextGeneration (pipe loaded) (arg_prompt a) (arg_max_new_tokens a)
                          (arg_temperature a) (pad_token_id loaded)]"
      if "get_llm env (arg_model_key a) st = (Inr loaded, st_llm)" for a
      using that by (simp add: run_generate_def Let_def emit_def split: sum.splits)
    show ?thesis
      unfolding generate_text_def r using run by (simp add: server_error_def)
  qed
  show ?thesis
    apply (rule conjI, rule impI, erule empty)
    apply (rule conjI, rule impI, erule notobj)
    apply (rule conjI, rule impI, erule obj)
    apply (simp add: py_int_shapes py_float_shapes default_temperature_def)
    done
qed

theorem generate_defaults_for_absent_fields_witness:
  "read_generate_args test_env None =
     Inr \<lparr>arg_prompt = JStr [], arg_model_key = JStr ''smollm2-1.7b'',
          arg_max_new_tokens = 256, arg_temperature = default_temperature\<rparr>
   \<and> generate_text test_env (Some (JArr [JInt 1])) empty_state =
     (\<lparr>status = 500, body = Failure ''Error generating text: '' AttributeError\<rparr>, empty_state)
   \<and> read_generate_args test_env (Some (JObj [(''prompt'', JStr ''Hello'')])) =
     Inr \<lparr>arg_prompt = JStr ''Hello'', arg_model_key = JStr ''smollm2-1.7b'',
          arg_max_new_tokens = 256, arg_temperature = default_temperature\<rparr>
   \<and> read_generate_args test_env
        (Some (JObj [(''prompt'', JStr ''Hello''), (''model'', JStr ''phi3-mini''),
                     (''max_new_tokens'', JInt 5), (''temperature'', JInt 1)])) =
     Inr \<lparr>arg_prompt = JStr ''Hello'', arg_model_key = JStr ''phi3-mini'',
          arg_max_new_tokens = 5, arg_temperature = Float64 0x3FF0000000000000\<rparr>
   \<and> generate_text test_env (Some (JObj [(''max_new_tokens'', JNull)])) empty_state =
     (\<lparr>status = 500, body = Failure ''Error generating text: '' TypeError\<rparr>, empty_state)
   \<and> generate_text test_env
        (Some (JObj [(''max_new_tokens'', JInt 5), (''temperature'', JNull)])) empty_state =
     (\<lparr>status = 500, body = Failure ''Error generating text: '' TypeError\<rparr>, empty_state)
   \<and> trace (snd (generate_text test_env
        (Some (JObj [(''prompt'', JStr ''Hello''), (''max_new_tokens'', JInt 5),
                     (''temperature'', JInt 1)])) empty_state)) =
     [MakePipeline ''text-generation'' ''HuggingFaceTB/SmolLM2-1.7B-Instruct'',
      SetPadToken (Handle 0 ''HuggingFaceTB/SmolLM2-1.7B-Instruct'') 128000,
      TextGeneration (Handle 0 ''HuggingFaceTB/SmolLM2-1.7B-Instruct'') (JStr ''Hello'') 5
        (Float64 0x3FF0000000000000) (Some 128000)]"
proof -
  have itf: "int_to_float test_env 1 = Inr (Float64 0x3FF0000000000000)"
    by (simp add: test_env_def)
  have a: "read_generate_args test_env None =
     Inr \<lparr>arg_prompt = JStr [], arg_model_key = JStr ''smollm2-1.7b'',
          arg_max_new_tokens = 256, arg_temperature = default_temperature\<rparr>"
    using generate_defaults_for_absent_fields [where env = test_env and request_json = None]
    by simp
  have b: "generate_text test_env (Some (JArr [JInt 1])) empty_state =
     (\<lparr>status = 500, body = Failure ''Error generating text: '' AttributeError\<rparr>, empty_state)"
    using generate_defaults_for_absent_fields [where env = test_env and st = empty_state
        and body_json = "JArr [JInt 1]"]
    by (simp add: truthy_def)
  have c: "read_generate_args test_env (Some (JObj [(''prompt'', JStr ''Hello'')])) =
     Inr \<lparr>arg_prompt = JStr ''Hello'', arg_model_key = JStr ''smollm2-1.7b'',
          arg_max_new_tokens = 256, arg_temperature = default_temperature\<rparr>"
    using generate_defaults_for_absent_fields [where env = test_env
        and d = "[(''prompt'', JStr ''Hello'')]" and prompt = "JStr ''Hello''"
        and model = "JStr ''smollm2-1.7b''" and tokens = "Inr 256"
        and temp = "Inr (Float64 0x3FE6666666666666)" and n = 256
        and t = "Float64 0x3FE6666666666666"]
    by (simp add: default_temperature_def)
  have d: "read_generate_args test_env
        (Some (JObj [(''prompt'', JStr ''Hello''), (''model'', JStr ''phi3-mini''),
                     (''max_new_tokens'', JInt 5), (''temperature'', JInt 1)])) =
     Inr \<lparr>arg_prompt = JStr ''Hello'', arg_model_key = JStr ''phi3-mini'',
          arg_max_new_tokens = 5, arg_temperature = Float64 0x3FF0000000000000\<rparr>"
    using generate_defaults_for_absent_fields [where env = test_env
        and d = "[(''prompt'', JStr ''Hello''), (''model'', JStr ''phi3-mini''),
                  (''max_new_tokens'', JInt 5), (''temperature'', JInt 1)]"
        and prompt = "JStr ''Hello''" and model = "JStr ''phi3-mini''" and tokens = "Inr 5"
        and temp = "Inr (Float64 0x3FF0000000000000)" and n = 5
        and t = "Float64 0x3FF0000000000000"]
    by (simp add: py_int_def py_float_def itf)
  have e: "generate_text test_env (Some (JObj [(''max_new_tokens'', JNull)])) empty_state =
     (\<lparr>status = 500, body = Failure ''Error generating text: '' TypeError\<rparr>, empty_state)"
    using generate_defaults_for_absent_fields [where env = test_env and st = empty_state
        and d = "[(''max_new_tokens'', JNull)]" and prompt = "JStr []"
        and model = "JStr ''smollm2-1.7b''" and tokens = "Inl TypeError"
        and temp = "Inr (Float64 0x3FE6666666666666)" and e = TypeError]
    by (simp add: py_int_def)
  have f: "generate_text test_env
        (Some (JObj [(''max_new_tokens'', JInt 5), (''temperature'', JNull)])) empty_state =
     (\<lparr>status = 500, body = Failure ''Error generating text: '' TypeError\<rparr>, empty_state)"
    using generate_defaults_for_absent_fields [where env = test_env and st = empty_state
        and d = "[(''max_new_tokens'', JInt 5), (''temperature'', JNull)]" and prompt = "JStr []"
        and model = "JStr ''smollm2-1.7b''" and tokens = "Inr 5"
        and temp = "Inl TypeError" and n = 5 and e = TypeError]
    by (simp add: py_int_def py_float_def)
  have g: "trace (snd (generate_text test_env
        (Some (JObj [(''prompt'', JStr ''Hello''), (''max_new_tokens'', JInt 5),
                     (''temperature'', JInt 1)])) empty_state)) =
     [MakePipeline ''text-generation'' ''HuggingFaceTB/SmolLM2-1.7B-Instruct'',
      SetPadToken (Handle 0 ''HuggingFaceTB/SmolLM2-1.7B-Instruct'') 128000,
      TextGeneration (Handle 0 ''HuggingFaceTB/SmolLM2-1.7B-Instruct'') (JStr ''Hello'') 5
        (Float64 0x3FF0000000000000) (Some 128000)]"
    using generate_defaults_for_absent_fields [where env = test_env and st = empty_state
        and d = "[(''prompt'', JStr ''Hello''), (''max_new_tokens'', JInt 5),
                  (''temperature'', JInt 1)]"
        and prompt = "JStr ''Hello''" and model = "JStr ''smollm2-1.7b''" and tokens = "Inr 5"
        and temp = "Inr (Float64 0x3FF0000000000000)" and n = 5
        and t = "Float64 0x3FF0000000000000" and request_json = None and body_json = JNull
        and loaded = "\<lparr>pipe = Handle 0 ''HuggingFaceTB/SmolLM2-1.7B-Instruct'',
                       pad_token_id = Some 128000\<rparr>"
        and st_llm = "\<lparr>model_cache = Map.empty,
          llm_cache = [''smollm2-1.7b'' \<mapsto>
            \<lparr>pipe = Handle 0 ''HuggingFaceTB/SmolLM2-1.7B-Instruct'',
             pad_token_id = Some 128000\<rparr>],
          trace = [MakePipeline ''text-generation'' ''HuggingFaceTB/SmolLM2-1.7B-Instruct'',
                   SetPadToken (Handle 0 ''HuggingFaceTB/SmolLM2-1.7B-Instruct'') 128000]\<rparr>"]
    by (auto simp: py_int_def py_float_def itf get_llm_default)
  show ?thesis using a b c d e f g by simp
qed

text \<open>
  Claim C2 as stated fails: a present but invalid field is not replaced by its default.
  With \<open>max_new_tokens\<close> null, or the string \<open>abc\<close>, the request answers 500 and loads
  nothing.
\<close>

theorem generate_invalid_field_counterexample:
  "generate_text test_env (Some (JObj [(''prompt'', JStr ''Hello''), (''max_new_tokens'', JNull)]))
      empty_state =
     (\<lparr>status = 500, body = Failure ''Error generating text: '' TypeError\<rparr>, empty_state)
   \<and> generate_text test_env
        (Some (JObj [(''prompt'', JStr ''Hello''), (''max_new_tokens'', JStr ''abc'')]))
        empty_state =
     (\<lparr>status = 500, body = Failure ''Error generating text: '' ValueError\<rparr>, empty_state)"
  by (simp add: generate_text_def read_generate_args_object field_def py_int_def
      server_error_def test_env_def is_digit_def)

subsection \<open>POST /caption, the tag-prompted adapter\<close>

lemma py_strip_decomp:
  "\<exists>a b. s = a @ py_strip s @ b \<and> list_all py_isspace a \<and> list_all py_isspace b
     \<and> (py_strip s \<noteq> [] \<longrightarrow>
          \<not> py_isspace (hd (py_strip s)) \<and> \<not> py_isspace (last (py_strip s)))"
proof -
  define t where "t = dropWhile py_isspace s"
  define a where "a = takeWhile py_isspace s"
  define b where "b = rev (takeWhile py_isspace (rev t))"
  have s: "s = a @ t" by (simp add: a_def t_def)
  have strip: "py_strip s = rev (dropWhile py_isspace (rev t))"
    by (simp add: py_strip_def t_def)
  have "t = rev (takeWhile py_isspace (rev t) @ dropWhile py_isspace (rev t))"
    by (simp only: takeWhile_dropWhile_id rev_rev_ident)
  also have "\<dots> = rev (dropWhile py_isspace (rev t)) @ rev (takeWhile py_isspace (rev t))"
    by (simp only: rev_append)
  finally have t: "t = py_strip s @ b" by (simp only: strip b_def)
  have wa: "list_all py_isspace a"
    by (auto simp: a_def list_all_iff dest: set_takeWhileD)
  have wb: "list_all py_isspace b"
    by (auto simp: b_def list_all_iff dest: set_takeWhileD)
  have ends: "\<not> py_isspace (hd (py_strip s)) \<and> \<not> py_isspace (last (py_strip s))"
    if ne: "py_strip s \<noteq> []"
  proof -
    have "t \<noteq> []" using t ne by auto
    then have "\<not> py_isspace (hd t)" unfolding t_def by (rule hd_dropWhile)
    moreover have "hd t = hd (py_strip s)" using t ne by (metis hd_append2)
    moreover have "dropWhile py_isspace (rev t) \<noteq> []" using ne strip by simp
    then have "\<not> py_isspace (hd (dropWhile py_isspace (rev t)))" by (rule hd_dropWhile)
    moreover have "last (py_strip s) = hd (dropWhile py_isspace (rev t))"
      unfolding strip by (simp add: last_rev)
    ultimately show ?thesis by simp
  qed
  show ?thesis using s t wa wb ends by auto
qed

lemma caption_image_florence:
  assumes "files_image req = Some upl" and "filename upl \<noteq> []"
    and "image_open env (stream upl) = Inr img"
    and "get_model env (case form_model req of None \<Rightarrow> ''florence-2'' | Some m \<Rightarrow> m) st =
           (Inr (LFlorence processor model), st_loaded)"
    and "florence_generate env (clock st_loaded) processor model
           (florence_prompt_for_mode (form_mode req)) img = Inr decoded"
  shows "fst (caption_image env req st) =
     \<lparr>status = 200,
      body = Json (JObj [(''text'', JStr
        ((case form_question req of
            None \<Rightarrow> []
          | Some q \<Rightarrow> if q \<noteq> [] then ''Question: '' @ q @ [CHR 0x0A] @ ''Answer: '' else []) @
         (if startswith decoded (florence_prompt_for_mode (form_mode req))
          then py_strip (drop (length (florence_prompt_for_mode (form_mode req))) decoded)
          else decoded)))])\<rparr>"
  using assms
  by (simp add: caption_image_def florence_caption_def ok_def Let_def split: option.splits)

text \<open>
  Claim C4, as amended. For a caption request served by the tag-prompted backend with a
  non-empty question, whatever the mode: the response has status 200 and its text is
  \<open>Question: {question}\<close>, a newline and \<open>Answer: \<close>, followed by the decoded caption.
  When the decoded caption begins with the prompt tag, the tag is removed and whitespace
  is then stripped from both ends of the remainder; otherwise the decoded caption is
  appended unchanged.
\<close>

theorem florence_question_prefix:
  assumes "files_image req = Some upl" and "filename upl \<noteq> []"
    and "image_open env (stream upl) = Inr img"
    and "get_model env (case form_model req of None \<Rightarrow> ''florence-2'' | Some m \<Rightarrow> m) st =
           (Inr (LFlorence processor model), st_loaded)"
    and "florence_generate env (clock st_loaded) processor model
           (florence_prompt_for_mode (form_mode req)) img = Inr decoded"
    and "form_question req = Some question" and "question \<noteq> []"
  shows "(\<forall>rest. decoded = florence_prompt_for_mode (form_mode req) @ rest \<longrightarrow>
            fst (caption_image env req st) =
              \<lparr>status = 200,
               body = Json (JObj [(''text'', JStr
                 (''Question: '' @ question @ [CHR 0x0A] @ ''Answer: '' @ py_strip rest))])\<rparr>)
       \<and> ((\<forall>rest. decoded \<noteq> florence_prompt_for_mode (form_mode req) @ rest) \<longrightarrow>
            fst (caption_image env req st) =
              \<lparr>status = 200,
               body = Json (JObj [(''text'', JStr
                 (''Question: '' @ question @ [CHR 0x0A] @ ''Answer: '' @ decoded))])\<rparr>)"
proof (intro conjI allI impI)
  fix rest assume "decoded = florence_prompt_for_mode (form_mode req) @ rest"
  then show "fst (caption_image env req st) =
              \<lparr>status = 200,
               body = Json (JObj [(''text'', JStr
                 (''Question: '' @ question @ [CHR 0x0A] @ ''Answer: '' @ py_strip rest))])\<rparr>"
    using caption_image_florence [OF assms(1-5)] assms(6,7) by (simp add: startswith_def)
next
  assume "\<forall>rest. decoded \<noteq> florence_prompt_for_mode (form_mode req) @ rest"
  then have "\<not> startswith decoded (florence_prompt_for_mode (form_mode req))"
    by (simp add: startswith_iff)
  then show "fst (caption_image env req st) =
              \<lparr>status = 200,
               body = Json (JObj [(''text'', JStr
                 (''Question: '' @ question @ [CHR 0x0A] @ ''Answer: '' @ decoded))])\<rparr>"
    using caption_image_florence [OF assms(1-5)] assms(6,7) by simp
qed

lemma get_model_florence:
  "get_model test_env ''florence-2'' empty_state =
     (Inr (LFlorence (Handle 0 ''microsoft/Florence-2-base'')
                     (Handle 1 ''microsoft/Florence-2-base'')),
      \<lparr>model_cache = [''florence-2'' \<mapsto>
          LFlorence (Handle 0 ''microsoft/Florence-2-base'')
                    (Handle 1 ''microsoft/Florence-2-base'')],
       llm_cache = Map.empty,
       trace = [ProcessorFromPretrained ''microsoft/Florence-2-base'',
                CausalLMFromPretrained ''microsoft/Florence-2-base'' None]\<rparr>)"
  by (simp add: get_model_def load_backend_def test_env_def empty_state_def
      MODELS_florence florence_2_def emit_def clock_def Let_def)

lemma strip_a_cat: "py_strip '' a cat '' = ''a cat''"
  by (simp add: py_strip_def py_isspace_def)

lemma caption_florence_eval:
  "fst (caption_image test_env
      \<lparr>files_image = Some photo, form_model = None, form_question = Some ''what'',
       form_mode = mode\<rparr> empty_state) =
     \<lparr>status = 200,
      body = Json (JObj [(''text'', JStr (''Question: what'' @ [CHR 0x0A] @ ''Answer: a cat''))])\<rparr>"
proof -
  have g: "florence_generate test_env t p m tag img = Inr (tag @ '' a cat '')" for t p m tag img
    by (simp add: test_env_def)
  have o: "image_open test_env (stream photo) = Inr (RGB ''PNG'')" "filename photo \<noteq> []"
    by (simp_all add: test_env_def photo_def)
  show ?thesis
    using caption_image_florence [where env = test_env and st = empty_state and upl = photo
        and img = "RGB ''PNG''"
        and req = "\<lparr>files_image = Some photo, form_model = None, form_question = Some ''what'',
                    form_mode = mode\<rparr>", OF _ o(2) o(1) _ g]
    by (simp add: get_model_florence startswith_def strip_a_cat)
qed

theorem florence_question_prefix_witness:
  "fst (caption_image test_env
      \<lparr>files_image = Some photo, form_model = None, form_question = Some ''what'',
       form_mode = Some ''ocr''\<rparr> empty_state) =
     \<lparr>status = 200,
      body = Json (JObj [(''text'', JStr (''Question: what'' @ [CHR 0x0A] @ ''Answer: a cat''))])\<rparr>
   \<and> fst (caption_image
        (test_env\<lparr>florence_generate := \<lambda>t p m tag img. Inr ''a dog''\<rparr>)
        \<lparr>files_image = Some photo, form_model = None, form_question = Some ''what'',
         form_mode = None\<rparr> empty_state) =
     \<lparr>status = 200,
      body = Json (JObj [(''text'', JStr (''Question: what'' @ [CHR 0x0A] @ ''Answer: a dog''))])\<rparr>"
proof -
  let ?F = "LFlorence (Handle 0 ''microsoft/Florence-2-base'')
                      (Handle 1 ''microsoft/Florence-2-base'')"
  let ?s = "\<lparr>model_cache = [''florence-2'' \<mapsto> ?F], llm_cache = Map.empty,
       trace = [ProcessorFromPretrained ''microsoft/Florence-2-base'',
                CausalLMFromPretrained ''microsoft/Florence-2-base'' None]\<rparr>"
  let ?env2 = "test_env\<lparr>florence_generate := \<lambda>t p m tag img. Inr ''a dog''\<rparr>"
  have tag: "florence_prompt_for_mode (Some ''ocr'') = ''<OCR>''"
    "florence_prompt_for_mode None = ''<MORE_DETAILED_CAPTION>''"
    by (simp_all add: florence_prompt_for_mode_def prompt_for_mode_of_def dict_get_def
        FLORENCE_TAGS_of_def default_mode_of_def florence_2_def)
  have o: "image_open test_env (stream photo) = Inr (RGB ''PNG'')"
    "image_open ?env2 (stream photo) = Inr (RGB ''PNG'')" "filename photo \<noteq> []"
    by (simp_all add: test_env_def photo_def)
  have g: "florence_generate test_env t p m tg img = Inr (tg @ '' a cat '')" for t p m tg img
    by (simp add: test_env_def)
  have gm2: "get_model ?env2 ''florence-2'' empty_state = (Inr ?F, ?s)"
    by (simp add: get_model_def load_backend_def test_env_def empty_state_def
        MODELS_florence florence_2_def emit_def clock_def Let_def)
  have a: "fst (caption_image test_env
      \<lparr>files_image = Some photo, form_model = None, form_question = Some ''what'',
       form_mode = Some ''ocr''\<rparr> empty_state) =
     \<lparr>status = 200,
      body = Json (JObj [(''text'', JStr (''Question: what'' @ [CHR 0x0A] @ ''Answer: a cat''))])\<rparr>"
    using florence_question_prefix [where env = test_env and st = empty_state and upl = photo
        and img = "RGB ''PNG''" and processor = "Handle 0 ''microsoft/Florence-2-base''"
        and model = "Handle 1 ''microsoft/Florence-2-base''" and st_loaded = ?s
        and decoded = "''<OCR> a cat ''" and question = "''what''"
        and req = "\<lparr>files_image = Some photo, form_model = None, form_question = Some ''what'',
                    form_mode = Some ''ocr''\<rparr>"]
    by (simp add: o get_model_florence tag g strip_a_cat)
  have b: "fst (caption_image ?env2
        \<lparr>files_image = Some photo, form_model = None, form_question = Some ''what'',
         form_mode = None\<rparr> empty_state) =
     \<lparr>status = 200,
      body = Json (JObj [(''text'', JStr (''Question: what'' @ [CHR 0x0A] @ ''Answer: a dog''))])\<rparr>"
    using florence_question_prefix [where env = ?env2 and st = empty_state and upl = photo
        and img = "RGB ''PNG''" and processor = "Handle 0 ''microsoft/Florence-2-base''"
        and model = "Handle 1 ''microsoft/Florence-2-base''" and st_loaded = ?s
        and decoded = "''a dog''" and question = "''what''"
        and req = "\<lparr>files_image = Some photo, form_model = None, form_question = Some ''what'',
                    form_mode = None\<rparr>"]
    by (simp add: o gm2 tag)
  show ?thesis using a b by simp
qed

text \<open>
  Claim C4 as stated fails: the backend decodes \<open><MORE_DETAILED_CAPTION> a cat \<close>, and the
  response is not the question block followed by the decoded caption without its tag
  (\<open> a cat \<close>, with its spaces) but the question block followed by \<open>a cat\<close>.
\<close>

theorem florence_question_prefix_counterexample:
  "florence_generate test_env 2 (Handle 0 ''microsoft/Florence-2-base'')
      (Handle 1 ''microsoft/Florence-2-base'') ''<MORE_DETAILED_CAPTION>'' (RGB ''PNG'') =
     Inr ''<MORE_DETAILED_CAPTION> a cat ''
   \<and> fst (caption_image test_env
      \<lparr>files_image = Some photo, form_model = None, form_question = Some ''what'',
       form_mode = None\<rparr> empty_state) =
     \<lparr>status = 200,
      body = Json (JObj [(''text'', JStr (''Question: what'' @ [CHR 0x0A] @ ''Answer: a cat''))])\<rparr>
   \<and> fst (caption_image test_env
      \<lparr>files_image = Some photo, form_model = None, form_question = Some ''what'',
       form_mode = None\<rparr> empty_state) \<noteq>
     \<lparr>status = 200,
      body = Json (JObj [(''text'', JStr (''Question: what'' @ [CHR 0x0A] @ ''Answer: '' @
        drop (length ''<MORE_DETAILED_CAPTION>'') ''<MORE_DETAILED_CAPTION> a cat ''))])\<rparr>"
  by (simp add: caption_florence_eval) (simp add: test_env_def)

subsection \<open>POST /caption, the conversational adapter\<close>

lemma moondream_prompt:
  "(case (if question \<noteq> [] then Some (py_strip question) else None) of
      None \<Rightarrow> ''Roast this image in one short, witty sentence.''
    | Some p \<Rightarrow> if p \<noteq> [] then p else ''Roast this image in one short, witty sentence.'') =
   (if py_strip question = [] then ''Roast this image in one short, witty sentence.''
    else py_strip question)"
  by (simp add: py_strip_def)

text \<open>
  Claim C7, as amended. For a caption request served by the conversational backend, the
  effective mode is the supplied mode when one is given and non-empty, else the default
  mode of the descriptor registered under the requested identifier (\<open>caption\<close> when there
  is none). When the effective mode is \<open>roast\<close>, the query prompt is the supplied
  question with whitespace stripped from both ends when that is non-empty, else the
  fallback \<open>Roast this image in one short, witty sentence.\<close>; one query call is made
  with the image and that prompt, and the text is the \<open>answer\<close> field of a dict result
  (null when the dict has none) or the string of any other result. For any other
  effective mode one caption call is made with the image alone, and the text is the
  \<open>caption\<close> field of a dict result or the string of any other result.
\<close>

theorem moondream_roast_or_caption:
  assumes "files_image req = Some upl" and "filename upl \<noteq> []"
    and "image_open env (stream upl) = Inr img"
    and "key = (case form_model req of None \<Rightarrow> ''florence-2'' | Some m \<Rightarrow> m)"
    and "get_model env key st = (Inr (LMoondream model), st_loaded)"
    and "question = (case form_question req of None \<Rightarrow> [] | Some q \<Rightarrow> q)"
    and "dflt = (case map_of MODELS key of
                   None \<Rightarrow> ''caption''
                 | Some info \<Rightarrow> (case info_default_mode info of None \<Rightarrow> ''caption'' | Some d \<Rightarrow> d))"
    and "eff = (case form_mode req of None \<Rightarrow> dflt | Some m \<Rightarrow> if m = [] then dflt else m)"
    and "prompt = (if py_strip question = [] then ''Roast this image in one short, witty sentence.''
                   else py_strip question)"
  shows "(eff = ''roast'' \<and> moondream_query env (clock st_loaded) model img prompt = Inr result \<longrightarrow>
            caption_image env req st =
              (\<lparr>status = 200,
                body = Json (JObj [(''text'',
                  (case result of
                     RDict d \<Rightarrow> (case map_of d ''answer'' of None \<Rightarrow> JNull | Some v \<Rightarrow> v)
                   | RObject s \<Rightarrow> JStr s))])\<rparr>,
               st_loaded\<lparr>trace := trace st_loaded @ [MoondreamQuery model img prompt]\<rparr>))
       \<and> (eff \<noteq> ''roast'' \<and> moondream_caption env (clock st_loaded) model img = Inr result \<longrightarrow>
            caption_image env req st =
              (\<lparr>status = 200,
                body = Json (JObj [(''text'',
                  (case result of
                     RDict d \<Rightarrow> (case map_of d ''caption'' of None \<Rightarrow> JNull | Some v \<Rightarrow> v)
                   | RObject s \<Rightarrow> JStr s))])\<rparr>,
               st_loaded\<lparr>trace := trace st_loaded @ [MoondreamCaption model img]\<rparr>))"
proof -
  have mode: "(case form_mode req of
                 None \<Rightarrow> dflt
               | Some m \<Rightarrow> if m \<noteq> [] then m else dflt) = eff"
    using assms(8) by (simp split: option.splits)
  have c: "caption_image env req st =
     (case moondream_answer env model key (form_mode req) question img st_loaded of
        (Inl e, st2) \<Rightarrow> (server_error ''Error analyzing image: '' e, st2)
      | (Inr caption, st2) \<Rightarrow> (ok (JObj [(''text'', caption)]), st2))"
    using assms(1-6) by (simp add: caption_image_def Let_def)
  show ?thesis
  proof (intro conjI impI)
    assume "eff = ''roast'' \<and> moondream_query env (clock st_loaded) model img prompt = Inr result"
    then show "caption_image env req st =
              (\<lparr>status = 200,
                body = Json (JObj [(''text'',
                  (case result of
                     RDict d \<Rightarrow> (case map_of d ''answer'' of None \<Rightarrow> JNull | Some v \<Rightarrow> v)
                   | RObject s \<Rightarrow> JStr s))])\<rparr>,
               st_loaded\<lparr>trace := trace st_loaded @ [MoondreamQuery model img prompt]\<rparr>)"
      unfolding c moondream_answer_def Let_def moondream_prompt assms(7) [symmetric] mode
        assms(9) [symmetric]
      by (simp add: ok_def emit_def result_field_def)
  next
    assume "eff \<noteq> ''roast'' \<and> moondream_caption env (clock st_loaded) model img = Inr result"
    then show "caption_image env req st =
              (\<lparr>status = 200,
                body = Json (JObj [(''text'',
                  (case result of
                     RDict d \<Rightarrow> (case map_of d ''caption'' of None \<Rightarrow> JNull | Some v \<Rightarrow> v)
                   | RObject s \<Rightarrow> JStr s))])\<rparr>,
               st_loaded\<lparr>trace := trace st_loaded @ [MoondreamCaption model img]\<rparr>)"
      unfolding c moondream_answer_def Let_def moondream_prompt assms(7) [symmetric] mode
        assms(9) [symmetric]
      by (simp add: ok_def emit_def result_field_def)
  qed
qed

lemma MODELS_moondream: "map_of MODELS ''moondream-2'' = Some moondream_2"
  by (simp add: MODELS_def)

lemma get_model_moondream:
  "get_model test_env ''moondream-2'' empty_state =
     (Inr (LMoondream (Handle 0 ''vikhyatk/moondream2'')),
      \<lparr>model_cache = [''moondream-2'' \<mapsto> LMoondream (Handle 0 ''vikhyatk/moondream2'')],
       llm_cache = Map.empty,
       trace = [CausalLMFromPretrained ''vikhyatk/moondream2'' (Some ''2025-06-21'')]\<rparr>)"
  by (simp add: get_model_def load_backend_def test_env_def empty_state_def
      MODELS_moondream moondream_2_def emit_def clock_def Let_def)

lemma strip_examples: "py_strip ''  '' = []" "py_strip '' hi '' = ''hi''"
  by (simp_all add: py_strip_def py_isspace_def)

lemma moondream_answer_eval:
  "moondream_answer test_env (Handle 0 ''vikhyatk/moondream2'') ''moondream-2'' (Some ''roast'')
      q (RGB ''PNG'') st =
     (Inr (JStr (if py_strip q = [] then ''Roast this image in one short, witty sentence.''
                 else py_strip q)),
      st\<lparr>trace := trace st @ [MoondreamQuery (Handle 0 ''vikhyatk/moondream2'') (RGB ''PNG'')
         (if py_strip q = [] then ''Roast this image in one short, witty sentence.''
          else py_strip q)]\<rparr>)"
  "moondream_answer test_env (Handle 0 ''vikhyatk/moondream2'') ''moondream-2'' None
      q (RGB ''PNG'') st =
     (Inr (JStr ''a dog''),
      st\<lparr>trace := trace st @ [MoondreamCaption (Handle 0 ''vikhyatk/moondream2'') (RGB ''PNG'')]\<rparr>)"
proof -
  have q: "moondream_query test_env t m img p = Inr (RDict [(''answer'', JStr p)])"
    "moondream_caption test_env t m img = Inr (RDict [(''caption'', JStr ''a dog'')])"
    for t m img p
    by (simp_all add: test_env_def)
  have dm: "info_default_mode moondream_2 = Some ''caption''"
    by (simp add: moondream_2_def)
  show "moondream_answer test_env (Handle 0 ''vikhyatk/moondream2'') ''moondream-2'' (Some ''roast'')
      q (RGB ''PNG'') st =
     (Inr (JStr (if py_strip q = [] then ''Roast this image in one short, witty sentence.''
                 else py_strip q)),
      st\<lparr>trace := trace st @ [MoondreamQuery (Handle 0 ''vikhyatk/moondream2'') (RGB ''PNG'')
         (if py_strip q = [] then ''Roast this image in one short, witty sentence.''
          else py_strip q)]\<rparr>)"
    unfolding moondream_answer_def Let_def moondream_prompt
    by (simp add: q emit_def result_field_def)
  show "moondream_answer test_env (Handle 0 ''vikhyatk/moondream2'') ''moondream-2'' None
      q (RGB ''PNG'') st =
     (Inr (JStr ''a dog''),
      st\<lparr>trace := trace st @ [MoondreamCaption (Handle 0 ''vikhyatk/moondream2'') (RGB ''PNG'')]\<rparr>)"
    unfolding moondream_answer_def Let_def moondream_prompt
    by (simp add: q emit_def result_field_def MODELS_moondream dm)
qed

lemma caption_moondream_eval:
  "caption_image test_env
      \<lparr>files_image = Some photo, form_model = Some ''moondream-2'', form_question = Some q,
       form_mode = mode\<rparr> empty_state =
     (case moondream_answer test_env (Handle 0 ''vikhyatk/moondream2'') ''moondream-2'' mode q
             (RGB ''PNG'')
             \<lparr>model_cache = [''moondream-2'' \<mapsto> LMoondream (Handle 0 ''vikhyatk/moondream2'')],
              llm_cache = Map.empty,
              trace = [CausalLMFromPretrained ''vikhyatk/moondream2'' (Some ''2025-06-21'')]\<rparr> of
        (Inl e, st2) \<Rightarrow> (server_error ''Error analyzing image: '' e, st2)
      | (Inr caption, st2) \<Rightarrow> (ok (JObj [(''text'', caption)]), st2))"
proof -
  have opn: "image_open test_env (stream photo) = Inr (RGB ''PNG'')" "filename photo \<noteq> []"
    by (simp_all add: test_env_def photo_def)
  show ?thesis
    by (simp add: caption_image_def Let_def opn get_model_moondream)
qed

theorem moondream_roast_or_caption_witness:
  "caption_image test_env
      \<lparr>files_image = Some photo, form_model = Some ''moondream-2'',
       form_question = Some '' hi '', form_mode = Some ''roast''\<rparr> empty_state =
     (\<lparr>status = 200, body = Json (JObj [(''text'', JStr ''hi'')])\<rparr>,
      \<lparr>model_cache = [''moondream-2'' \<mapsto> LMoondream (Handle 0 ''vikhyatk/moondream2'')],
       llm_cache = Map.empty,
       trace = [CausalLMFromPretrained ''vikhyatk/moondream2'' (Some ''2025-06-21''),
                MoondreamQuery (Handle 0 ''vikhyatk/moondream2'') (RGB ''PNG'') ''hi'']\<rparr>)
   \<and> caption_image test_env
      \<lparr>files_image = Some photo, form_model = Some ''moondream-2'',
       form_question = Some '' hi '', form_mode = None\<rparr> empty_state =
     (\<lparr>status = 200, body = Json (JObj [(''text'', JStr ''a dog'')])\<rparr>,
      \<lparr>model_cache = [''moondream-2'' \<mapsto> LMoondream (Handle 0 ''vikhyatk/moondream2'')],
       llm_cache = Map.empty,
       trace = [CausalLMFromPretrained ''vikhyatk/moondream2'' (Some ''2025-06-21''),
                MoondreamCaption (Handle 0 ''vikhyatk/moondream2'') (RGB ''PNG'')]\<rparr>)"
proof -
  let ?M = "Handle 0 ''vikhyatk/moondream2''"
  let ?s = "\<lparr>model_cache = [''moondream-2'' \<mapsto> LMoondream ?M], llm_cache = Map.empty,
       trace = [CausalLMFromPretrained ''vikhyatk/moondream2'' (Some ''2025-06-21'')]\<rparr>"
  have opn: "image_open test_env (stream photo) = Inr (RGB ''PNG'')" "filename photo \<noteq> []"
    by (simp_all add: test_env_def photo_def)
  have q: "moondream_query test_env t m img p = Inr (RDict [(''answer'', JStr p)])"
    "moondream_caption test_env t m img = Inr (RDict [(''caption'', JStr ''a dog'')])"
    for t m img p
    by (simp_all add: test_env_def)
  have dm: "info_default_mode moondream_2 = Some ''caption''"
    by (simp add: moondream_2_def)
  have a: "caption_image test_env
      \<lparr>files_image = Some photo, form_model = Some ''moondream-2'',
       form_question = Some '' hi '', form_mode = Some ''roast''\<rparr> empty_state =
     (\<lparr>status = 200, body = Json (JObj [(''text'', JStr ''hi'')])\<rparr>,
      ?s\<lparr>trace := trace ?s @ [MoondreamQuery ?M (RGB ''PNG'') ''hi'']\<rparr>)"
    using moondream_roast_or_caption [where env = test_env and st = empty_state and upl = photo
        and img = "RGB ''PNG''" and key = "''moondream-2''" and model = ?M and st_loaded = ?s
        and question = "'' hi ''" and dflt = "''caption''" and eff = "''roast''"
        and prompt = "''hi''" and result = "RDict [(''answer'', JStr ''hi'')]"
        and req = "\<lparr>files_image = Some photo, form_model = Some ''moondream-2'',
                    form_question = Some '' hi '', form_mode = Some ''roast''\<rparr>"]
    by (simp add: opn get_model_moondream MODELS_moondream dm q strip_examples)
  have b: "caption_image test_env
      \<lparr>files_image = Some photo, form_model = Some ''moondream-2'',
       form_question = Some '' hi '', form_mode = None\<rparr> empty_state =
     (\<lparr>status = 200, body = Json (JObj [(''text'', JStr ''a dog'')])\<rparr>,
      ?s\<lparr>trace := trace ?s @ [MoondreamCaption ?M (RGB ''PNG'')]\<rparr>)"
    using moondream_roast_or_caption [where env = test_env and st = empty_state and upl = photo
        and img = "RGB ''PNG''" and key = "''moondream-2''" and model = ?M and st_loaded = ?s
        and question = "'' hi ''" and dflt = "''caption''" and eff = "''caption''"
        and prompt = "''hi''" and result = "RDict [(''caption'', JStr ''a dog'')]"
        and req = "\<lparr>files_image = Some photo, form_model = Some ''moondream-2'',
                    form_question = Some '' hi '', form_mode = None\<rparr>"]
    by (simp add: opn get_model_moondream MODELS_moondream dm q strip_examples)
  show ?thesis using a b by simp
qed

text \<open>
  Claim C7 as stated fails: with mode \<open>roast\<close> and the non-empty question of two spaces, the
  query prompt is not the supplied question but the fallback; and with the question
  \<open> hi \<close> the query prompt is \<open>hi\<close>, not the supplied question.
\<close>

theorem moondream_roast_or_caption_counterexample:
  "trace (snd (caption_image test_env
      \<lparr>files_image = Some photo, form_model = Some ''moondream-2'',
       form_question = Some ''  '', form_mode = Some ''roast''\<rparr> empty_state)) =
     [CausalLMFromPretrained ''vikhyatk/moondream2'' (Some ''2025-06-21''),
      MoondreamQuery (Handle 0 ''vikhyatk/moondream2'') (RGB ''PNG'')
        ''Roast this image in one short, witty sentence.'']
   \<and> trace (snd (caption_image test_env
      \<lparr>files_image = Some photo, form_model = Some ''moondream-2'',
       form_question = Some ''  '', form_mode = Some ''roast''\<rparr> empty_state)) \<noteq>
     [CausalLMFromPretrained ''vikhyatk/moondream2'' (Some ''2025-06-21''),
      MoondreamQuery (Handle 0 ''vikhyatk/moondream2'') (RGB ''PNG'') ''  '']
   \<and> trace (snd (caption_image test_env
      \<lparr>files_image = Some photo, form_model = Some ''moondream-2'',
       form_question = Some '' hi '', form_mode = Some ''roast''\<rparr> empty_state)) =
     [CausalLMFromPretrained ''vikhyatk/moondream2'' (Some ''2025-06-21''),
      MoondreamQuery (Handle 0 ''vikhyatk/moondream2'') (RGB ''PNG'') ''hi'']
   \<and> ''hi'' \<noteq> '' hi ''"
  by (simp add: caption_moondream_eval moondream_answer_eval strip_examples)

subsection \<open>Unknown model identifiers\<close>








end
